theory Spec2Isabelle
  imports Complex_Main "HOL-Library.AList" "HOL-Library.Sublist"
begin

section \<open>Values and exceptions\<close>

text \<open>
  The services exchange plain nested dictionaries, lists, strings and numbers. A dictionary
  is an association list in insertion order. Numbers are exact rationals: the difference
  between Python's \<^verbatim>\<open>int\<close> and \<^verbatim>\<open>float\<close> and the rounding of float arithmetic are not
  modelled, and the library operations whose result shows that rounding (\<^verbatim>\<open>round\<close>, the
  float format, the truncation of a float product) are parameters of the operations that
  call them. Characters are the 8-bit code points of \<^typ>\<open>char\<close>.
\<close>

datatype json =
    JNull
  | JBool bool
  | JNum rat
  | JStr string
  | JArr "json list"
  | JObj "(string \<times> json) list"

text \<open>Every \<^verbatim>\<open>raise\<close> of the source is a value of this type.\<close>

datatype exn =
    Exception string
  | JSONDecodeError
  | ZeroDivisionError
  | TypeError
  | AttributeError
  | StopIteration

text \<open>\<^verbatim>\<open>d.get(key)\<close> on a dictionary, and the keys of a dictionary in order.\<close>

definition dict_get :: "(string \<times> json) list \<Rightarrow> string \<Rightarrow> json option" where
  "dict_get d k = map_of d k"

definition dict_keys :: "(string \<times> json) list \<Rightarrow> string list" where
  "dict_keys d = map fst d"

text \<open>\<^verbatim>\<open>d[key] = value\<close>: an existing key keeps its place, a new key goes last.\<close>

definition dict_set :: "(string \<times> json) list \<Rightarrow> string \<Rightarrow> json \<Rightarrow> (string \<times> json) list" where
  "dict_set d k v = AList.update k v d"

section \<open>Provider service (ai\_service.py)\<close>

datatype provider_class = GeminiProvider | OpenAIProvider | AnthropicProvider

record provider_instance =
  provider_cls :: provider_class
  api_key :: string
  model :: string

record ai_service =
  current_provider :: "string option"
  current_instance :: "provider_instance option"

text \<open>\<^verbatim>\<open>self.providers\<close>, the registry filled in by \<^verbatim>\<open>AIService.__init__\<close>.\<close>

definition providers :: "(string \<times> provider_class) list" where
  "providers =
    [(''gemini'', GeminiProvider), (''openai'', OpenAIProvider), (''anthropic'', AnthropicProvider)]"

record provider_info =
  info_name :: string
  display_name :: string
  description :: string
  default_model :: string

definition get_available_providers :: "provider_info list" where
  "get_available_providers =
    [\<lparr>info_name = ''gemini'', display_name = ''Google Gemini'',
      description = ''Google's Gemini AI model'', default_model = ''gemini-2.5-flash''\<rparr>,
     \<lparr>info_name = ''openai'', display_name = ''OpenAI'',
      description = ''OpenAI's GPT models'', default_model = ''gpt-3.5-turbo''\<rparr>,
     \<lparr>info_name = ''anthropic'', display_name = ''Anthropic Claude'',
      description = ''Anthropic's Claude models'', default_model = ''claude-3-sonnet-20240229''\<rparr>]"

text \<open>
  \<^verbatim>\<open>validate_config\<close> is the same in the three provider classes:
  \<^verbatim>\<open>bool(config.get("api_key"))\<close>. The configuration dictionary that
  \<^verbatim>\<open>configure_provider\<close> passes holds the key alone.
\<close>

definition validate_config :: "provider_class \<Rightarrow> string \<Rightarrow> bool" where
  "validate_config c key = (key \<noteq> [])"

text \<open>
  \<^verbatim>\<open>configure_provider\<close> returns its boolean together with the service after the call.
  \<^verbatim>\<open>model\<close> is \<open>None\<close> when the argument is left out; \<^verbatim>\<open>not model\<close> holds for
  \<open>None\<close> and for the empty string. \<^verbatim>\<open>next(...)\<close> on an exhausted generator raises
  StopIteration, which the enclosing \<^verbatim>\<open>except Exception\<close> turns into \<open>False\<close>.
  The \<^verbatim>\<open>settings\<close> argument is never read.
\<close>

definition default_model_for :: "string \<Rightarrow> exn + string" where
  "default_model_for provider =
    (case find (\<lambda>p. info_name p = provider) get_available_providers of
       None \<Rightarrow> Inl StopIteration
     | Some p \<Rightarrow> Inr (default_model p))"

definition configure_provider ::
  "ai_service \<Rightarrow> string \<Rightarrow> string \<Rightarrow> string option \<Rightarrow> json option \<Rightarrow> bool \<times> ai_service" where
  "configure_provider svc provider key mdl settings =
    (case map_of providers provider of
       None \<Rightarrow> (False, svc)
     | Some provider_class \<Rightarrow>
        (case (case mdl of
                 None \<Rightarrow> default_model_for provider
               | Some m \<Rightarrow> if m = [] then default_model_for provider else Inr m) of
           Inl e \<Rightarrow> (False, svc)
         | Inr m \<Rightarrow>
            (let instance = \<lparr>provider_cls = provider_class, api_key = key, model = m\<rparr>
             in if \<not> validate_config (provider_cls instance) key then (False, svc)
                else (True, svc\<lparr>current_provider := Some provider,
                                current_instance := Some instance\<rparr>))))"

definition get_current_provider :: "ai_service \<Rightarrow> string" where
  "get_current_provider svc =
    (case current_provider svc of
       None \<Rightarrow> ''none''
     | Some p \<Rightarrow> if p = [] then ''none'' else p)"

subsection \<open>The structured-response contract\<close>

text \<open>
  \<^verbatim>\<open>generate_text\<close> of a provider posts the prompt to the vendor and either returns the
  generated text or raises. Its outcome is an input of the model, \<open>reply\<close>: the text, or
  the exception raised. The prompt only travels to the vendor, so it is not built here.
  \<^verbatim>\<open>json.loads\<close> belongs to the Python library and is the parameter \<open>loads\<close>.

  \<^verbatim>\<open>re.search(r'\{.*\}', text, re.DOTALL)\<close>: the leftmost match starts at the first
  opening brace that has a closing brace after it, and the greedy \<^verbatim>\<open>.*\<close> (which
  crosses newlines under DOTALL) carries it to the last closing brace of the text. If the
  first opening brace has no closing brace after it, no later one has.
\<close>

definition re_search_braces :: "string \<Rightarrow> string option" where
  "re_search_braces text =
    (let rest = dropWhile (\<lambda>c. c \<noteq> CHR ''{'') text;
         span = rev (dropWhile (\<lambda>c. c \<noteq> CHR ''}'') (rev rest))
     in if span = [] then None else Some span)"

text \<open>
  The parsing half of \<^verbatim>\<open>generate_structured_response\<close>, identical in the three provider
  classes. Only \<^verbatim>\<open>json.JSONDecodeError\<close> sends the first attempt to the second stage;
  an error of the second \<^verbatim>\<open>json.loads\<close> is logged and raised again.
\<close>

definition parse_structured_response :: "(string \<Rightarrow> exn + json) \<Rightarrow> string \<Rightarrow> exn + json" where
  "parse_structured_response loads response_text =
    (case loads response_text of
       Inr v \<Rightarrow> Inr v
     | Inl e \<Rightarrow>
        if e = JSONDecodeError then
          (case re_search_braces response_text of
             Some json_match \<Rightarrow> loads json_match
           | None \<Rightarrow> Inl (Exception ''Could not parse structured response as JSON''))
        else Inl e)"

definition provider_generate_structured_response ::
  "(string \<Rightarrow> exn + json) \<Rightarrow> exn + string \<Rightarrow> exn + json" where
  "provider_generate_structured_response loads reply =
    (case reply of
       Inl e \<Rightarrow> Inl e
     | Inr response_text \<Rightarrow> parse_structured_response loads response_text)"

text \<open>\<^verbatim>\<open>AIService.generate_structured_response\<close>: refuse without an active instance, else delegate.\<close>

definition generate_structured_response ::
  "ai_service \<Rightarrow> (string \<Rightarrow> exn + json) \<Rightarrow> exn + string \<Rightarrow> exn + json" where
  "generate_structured_response svc loads reply =
    (case current_instance svc of
       None \<Rightarrow> Inl (Exception ''No AI provider configured'')
     | Some instance \<Rightarrow> provider_generate_structured_response loads reply)"

section \<open>Question generator (question\_generator.py)\<close>

definition nl :: string where
  "nl = [CHR 0x0A]"

definition indent :: string where
  "indent = replicate 12 (CHR '' '')"

text \<open>The table of per-type instructions inside \<^verbatim>\<open>_create_question_prompt\<close> and its lookup.\<close>

definition type_instructions :: "(string \<times> string) list" where
  "type_instructions =
    [(''technical'',
      nl @ indent @ ''Focus on technical skills, problem-solving abilities, and hands-on experience.''
      @ nl @ indent @ ''Include questions about specific technologies, coding challenges, and technical decision-making.''
      @ nl @ indent),
     (''behavioral'',
      nl @ indent @ ''Focus on past experiences, soft skills, and how the candidate handles various situations.''
      @ nl @ indent @ ''Use the STAR method (Situation, Task, Action, Result) format.''
      @ nl @ indent),
     (''leadership'',
      nl @ indent @ ''Focus on leadership experience, team management, decision-making, and vision.''
      @ nl @ indent @ ''Include questions about conflict resolution, team building, and strategic thinking.''
      @ nl @ indent),
     (''general'',
      nl @ indent @ ''Mix of technical, behavioral, and situational questions.''
      @ nl @ indent @ ''Cover various aspects of the role and company culture fit.''
      @ nl @ indent),
     (''culture_fit'',
      nl @ indent @ ''Focus on values alignment, work style, motivation, and team collaboration.''
      @ nl @ indent @ ''Include questions about company culture, work environment preferences, and long-term goals.''
      @ nl @ indent)]"

definition type_instruction :: "string \<Rightarrow> string" where
  "type_instruction question_type =
    (case map_of type_instructions question_type of
       Some t \<Rightarrow> t
     | None \<Rightarrow> the (map_of type_instructions ''general''))"

text \<open>One entry of the fallback catalog, with its keys in the order of the source.\<close>

definition fallback_question :: "string \<Rightarrow> string \<Rightarrow> string \<Rightarrow> string \<Rightarrow> string list \<Rightarrow> json" where
  "fallback_question q category difficulty purpose follow_ups =
    JObj [(''question'', JStr q), (''category'', JStr category), (''difficulty'', JStr difficulty),
          (''purpose'', JStr purpose), (''follow_up_suggestions'', JArr (map JStr follow_ups))]"

definition fallback_questions :: "(string \<times> json list) list" where
  "fallback_questions =
    [(''technical'',
      [fallback_question
         ''Can you walk me through your approach to solving a complex technical problem?''
         ''Technical'' ''medium'' ''Assess problem-solving methodology''
         [''What specific tools or technologies did you use?'',
          ''How did you handle unexpected challenges?''],
       fallback_question
         ''Describe a time when you had to learn a new technology quickly. How did you approach it?''
         ''Technical'' ''easy'' ''Evaluate learning agility''
         [''What resources did you use?'',
          ''How did you ensure quality while learning quickly?'']]),
     (''behavioral'',
      [fallback_question
         ''Tell me about a time when you had to work with a difficult team member. How did you handle it?''
         ''Behavioral'' ''medium'' ''Assess conflict resolution skills''
         [''What was the outcome?'',
          ''What did you learn from this experience?''],
       fallback_question
         ''Describe a situation where you had to meet a tight deadline. How did you manage it?''
         ''Behavioral'' ''easy'' ''Evaluate time management and stress handling''
         [''What strategies did you use?'',
          ''How did you ensure quality wasn't compromised?'']]),
     (''general'',
      [fallback_question
         ''Tell me about yourself and your professional background.''
         ''General'' ''easy'' ''Get overview of candidate's experience''
         [''What aspects of your background are most relevant to this role?'',
          ''What are you most proud of in your career?''],
       fallback_question
         ''Why are you interested in this position and our company?''
         ''General'' ''easy'' ''Assess motivation and company research''
         [''What specific aspects of our company culture appeal to you?'',
          ''How do you see yourself contributing to our team?'']])]"

text \<open>
  \<^verbatim>\<open>xs[:count]\<close>: a negative count drops that many elements from the end.
\<close>

definition py_take :: "int \<Rightarrow> 'a list \<Rightarrow> 'a list" where
  "py_take count xs =
    (if 0 \<le> count then take (nat count) xs else take (nat (int (length xs) + count)) xs)"

definition get_fallback_questions :: "string \<Rightarrow> int \<Rightarrow> json" where
  "get_fallback_questions question_type count =
    (let questions =
       (case map_of fallback_questions question_type of
          Some qs \<Rightarrow> qs
        | None \<Rightarrow> the (map_of fallback_questions ''general''))
     in JArr (py_take count questions))"

text \<open>
  \<^verbatim>\<open>_create_question_prompt\<close> is modelled for the one exception it can raise, not for its
  text: when the candidate information has a true value under \<^verbatim>\<open>skills\<close>, the prompt
  joins it with \<^verbatim>\<open>', '.join(...)\<close>, which raises TypeError unless the value is a string,
  a dictionary or a list of strings.
\<close>

definition truthy :: "json \<Rightarrow> bool" where
  "truthy v =
    (case v of
       JNull \<Rightarrow> False
     | JBool b \<Rightarrow> b
     | JNum n \<Rightarrow> n \<noteq> 0
     | JStr s \<Rightarrow> s \<noteq> []
     | JArr xs \<Rightarrow> xs \<noteq> []
     | JObj d \<Rightarrow> d \<noteq> [])"

definition is_str :: "json \<Rightarrow> bool" where
  "is_str v = (case v of JStr s \<Rightarrow> True | _ \<Rightarrow> False)"

definition joinable :: "json \<Rightarrow> bool" where
  "joinable v =
    (case v of
       JStr s \<Rightarrow> True
     | JArr xs \<Rightarrow> list_all is_str xs
     | JObj d \<Rightarrow> True
     | _ \<Rightarrow> False)"

definition create_question_prompt :: "(string \<times> json) list \<Rightarrow> exn + unit" where
  "create_question_prompt candidate_info =
    (case dict_get candidate_info ''skills'' of
       None \<Rightarrow> Inr ()
     | Some skills \<Rightarrow> if truthy skills \<and> \<not> joinable skills then Inl TypeError else Inr ())"

text \<open>
  The body of the \<^verbatim>\<open>try\<close> in \<^verbatim>\<open>generate_questions\<close>. \<^verbatim>\<open>response.get\<close> exists on a
  dictionary only: any other parsed value raises AttributeError.
\<close>

definition generate_questions_try ::
  "ai_service \<Rightarrow> (string \<Rightarrow> exn + json) \<Rightarrow> exn + string \<Rightarrow> (string \<times> json) list \<Rightarrow> exn + json" where
  "generate_questions_try svc loads reply candidate_info =
    (case create_question_prompt candidate_info of
       Inl e \<Rightarrow> Inl e
     | Inr prompt \<Rightarrow>
        (case generate_structured_response svc loads reply of
           Inl e \<Rightarrow> Inl e
         | Inr (JObj response) \<Rightarrow>
            (case dict_get response ''questions'' of
               Some qs \<Rightarrow> Inr qs
             | None \<Rightarrow> Inr (JArr []))
         | Inr _ \<Rightarrow> Inl AttributeError))"

text \<open>
  \<^verbatim>\<open>generate_questions\<close>. The context and the previous questions only enter the prompt.
\<close>

definition generate_questions ::
  "ai_service \<Rightarrow> (string \<Rightarrow> exn + json) \<Rightarrow> exn + string
    \<Rightarrow> string \<Rightarrow> string \<Rightarrow> int \<Rightarrow> string list \<Rightarrow> (string \<times> json) list \<Rightarrow> json" where
  "generate_questions svc loads reply context question_type count previous_questions candidate_info =
    (case generate_questions_try svc loads reply candidate_info of
       Inr questions \<Rightarrow> questions
     | Inl e \<Rightarrow> get_fallback_questions question_type count)"

definition get_fallback_followup_questions :: json where
  "get_fallback_followup_questions =
    JArr
     [JObj [(''question'', JStr ''Can you provide a specific example of that?''),
            (''relevance'', JStr ''Asks for concrete evidence''),
            (''purpose'', JStr ''Verify claims with specific details'')],
      JObj [(''question'', JStr ''What challenges did you face in that situation?''),
            (''relevance'', JStr ''Explores problem-solving approach''),
            (''purpose'', JStr ''Understand how candidate handles obstacles'')],
      JObj [(''question'', JStr ''What would you do differently if you faced that situation again?''),
            (''relevance'', JStr ''Tests learning and self-reflection''),
            (''purpose'', JStr ''Assess growth mindset and continuous improvement'')]]"


text \<open>
  The body of the \<^verbatim>\<open>try\<close> in \<^verbatim>\<open>generate_followup_questions\<close>. The prompt loop calls
  \<^verbatim>\<open>qa.get\<close> on each of the last three history entries, which raises AttributeError on an
  entry that is not a dictionary, before the provider is asked.
\<close>

definition py_last3 :: "'a list \<Rightarrow> 'a list" where
  "py_last3 xs = drop (length xs - 3) xs"

definition is_dict :: "json \<Rightarrow> bool" where
  "is_dict v = (case v of JObj d \<Rightarrow> True | _ \<Rightarrow> False)"

definition generate_followup_questions_try ::
  "ai_service \<Rightarrow> (string \<Rightarrow> exn + json) \<Rightarrow> exn + string \<Rightarrow> json list \<Rightarrow> exn + json" where
  "generate_followup_questions_try svc loads reply qa_history =
    (if \<not> list_all is_dict (py_last3 qa_history) then Inl AttributeError
     else
       (case generate_structured_response svc loads reply of
          Inl e \<Rightarrow> Inl e
        | Inr (JObj response) \<Rightarrow>
           (case dict_get response ''followup_questions'' of
              Some qs \<Rightarrow> Inr qs
            | None \<Rightarrow> Inr (JArr []))
        | Inr _ \<Rightarrow> Inl AttributeError))"

definition generate_followup_questions ::
  "ai_service \<Rightarrow> (string \<Rightarrow> exn + json) \<Rightarrow> exn + string
    \<Rightarrow> string \<Rightarrow> string \<Rightarrow> json list \<Rightarrow> json" where
  "generate_followup_questions svc loads reply question answer qa_history =
    (case generate_followup_questions_try svc loads reply qa_history of
       Inr questions \<Rightarrow> questions
     | Inl e \<Rightarrow> get_fallback_followup_questions)"

section \<open>A JSON decoder for concrete texts\<close>

text \<open>
  The operations above take the decoder as a parameter. To run them on a concrete reply,
  \<open>json_loads\<close> decodes the JSON grammar as \<^verbatim>\<open>json.loads\<close> does (whitespace, objects with
  a repeated key keeping the last value, arrays, strings with the single-character escapes,
  numbers with fraction and exponent, \<^verbatim>\<open>true\<close>, \<^verbatim>\<open>false\<close>, \<^verbatim>\<open>null\<close>), apart from
  \<^verbatim>\<open>\u\<close> escapes and the constants \<^verbatim>\<open>NaN\<close> and \<^verbatim>\<open>Infinity\<close>, which it rejects. The
  recursion is on a fuel argument that starts above the length of the text.
\<close>

definition is_json_ws :: "char \<Rightarrow> bool" where
  "is_json_ws c = (c = CHR '' '' \<or> c = CHR 0x09 \<or> c = CHR 0x0A \<or> c = CHR 0x0D)"

definition skip_ws :: "string \<Rightarrow> string" where
  "skip_ws = dropWhile is_json_ws"

definition is_digit :: "char \<Rightarrow> bool" where
  "is_digit c = (48 \<le> (of_char c :: nat) \<and> (of_char c :: nat) \<le> 57)"

definition digits_value :: "string \<Rightarrow> nat" where
  "digits_value ds = foldl (\<lambda>n c. 10 * n + (of_char c - 48)) 0 ds"

definition unescape :: "char \<Rightarrow> char option" where
  "unescape c =
    (if c = CHR 0x22 \<or> c = CHR 0x5C \<or> c = CHR ''/'' then Some c
     else if c = CHR ''b'' then Some (CHR 0x08)
     else if c = CHR ''f'' then Some (CHR 0x0C)
     else if c = CHR ''n'' then Some (CHR 0x0A)
     else if c = CHR ''r'' then Some (CHR 0x0D)
     else if c = CHR ''t'' then Some (CHR 0x09)
     else None)"

fun scan_string :: "string \<Rightarrow> string \<Rightarrow> (string \<times> string) option" where
  "scan_string acc [] = None"
| "scan_string acc [c] = (if c = CHR 0x22 then Some (rev acc, []) else None)"
| "scan_string acc (c # d # cs) =
    (if c = CHR 0x22 then Some (rev acc, d # cs)
     else if c = CHR 0x5C then
       (case unescape d of
          Some u \<Rightarrow> scan_string (u # acc) cs
        | None \<Rightarrow> None)
     else if (of_char c :: nat) < 32 then None
     else scan_string (c # acc) (d # cs))"

definition scan_exponent :: "string \<Rightarrow> (int \<times> string)" where
  "scan_exponent cs =
    (case cs of
       e # r \<Rightarrow>
        (if e = CHR ''e'' \<or> e = CHR ''E'' then
           (let neg = (case r of s # _ \<Rightarrow> s = CHR ''-'' | [] \<Rightarrow> False);
                r' = (case r of s # t \<Rightarrow> if s = CHR ''-'' \<or> s = CHR ''+'' then t else r | [] \<Rightarrow> r);
                ds = takeWhile is_digit r'
            in if ds = [] then (0, cs)
               else ((if neg then - int (digits_value ds) else int (digits_value ds)),
                     dropWhile is_digit r'))
         else (0, cs))
     | [] \<Rightarrow> (0, cs))"

definition scan_number :: "string \<Rightarrow> (json \<times> string) option" where
  "scan_number cs =
    (let neg = (case cs of s # _ \<Rightarrow> s = CHR ''-'' | [] \<Rightarrow> False);
         r = (if neg then tl cs else cs);
         ip = (case r of d # _ \<Rightarrow> if d = CHR ''0'' then [d] else takeWhile is_digit r | [] \<Rightarrow> []);
         r1 = drop (length ip) r;
         fp = (case r1 of p # t \<Rightarrow> if p = CHR ''.'' then takeWhile is_digit t else [] | [] \<Rightarrow> []);
         r2 = (if fp = [] then r1 else drop (Suc (length fp)) r1);
         (ex, r3) = scan_exponent r2;
         mag = (of_nat (digits_value ip) + of_nat (digits_value fp) / 10 ^ length fp :: rat);
         scaled = (if 0 \<le> ex then mag * 10 ^ nat ex else mag / 10 ^ nat (- ex))
     in if ip = [] then None else Some (JNum (if neg then - scaled else scaled), r3))"

fun parse_value :: "nat \<Rightarrow> string \<Rightarrow> (json \<times> string) option"
  and parse_elements :: "nat \<Rightarrow> json list \<Rightarrow> string \<Rightarrow> (json \<times> string) option"
  and parse_members :: "nat \<Rightarrow> (string \<times> json) list \<Rightarrow> string \<Rightarrow> (json \<times> string) option" where
  "parse_value 0 cs = None"
| "parse_value (Suc n) cs =
    (case cs of
       [] \<Rightarrow> None
     | c # r \<Rightarrow>
        if c = CHR ''{'' then
          (case skip_ws r of
             [] \<Rightarrow> None
           | d # r' \<Rightarrow> if d = CHR ''}'' then Some (JObj [], r') else parse_members n [] (d # r'))
        else if c = CHR ''['' then
          (case skip_ws r of
             [] \<Rightarrow> None
           | d # r' \<Rightarrow> if d = CHR '']'' then Some (JArr [], r') else parse_elements n [] (d # r'))
        else if c = CHR 0x22 then
          (case scan_string [] r of
             Some (s, r') \<Rightarrow> Some (JStr s, r')
           | None \<Rightarrow> None)
        else if take 4 cs = ''true'' then Some (JBool True, drop 4 cs)
        else if take 5 cs = ''false'' then Some (JBool False, drop 5 cs)
        else if take 4 cs = ''null'' then Some (JNull, drop 4 cs)
        else scan_number cs)"
| "parse_elements 0 acc cs = None"
| "parse_elements (Suc n) acc cs =
    (case parse_value n cs of
       None \<Rightarrow> None
     | Some (v, r) \<Rightarrow>
        (case skip_ws r of
           [] \<Rightarrow> None
         | d # r' \<Rightarrow>
            if d = CHR '']'' then Some (JArr (acc @ [v]), r')
            else if d = CHR '','' then parse_elements n (acc @ [v]) (skip_ws r')
            else None))"
| "parse_members 0 acc cs = None"
| "parse_members (Suc n) acc cs =
    (case cs of
       [] \<Rightarrow> None
     | q # r \<Rightarrow>
        if q \<noteq> CHR 0x22 then None
        else
          (case scan_string [] r of
             None \<Rightarrow> None
           | Some (k, r1) \<Rightarrow>
              (case skip_ws r1 of
                 [] \<Rightarrow> None
               | colon # r2 \<Rightarrow>
                  if colon \<noteq> CHR '':'' then None
                  else
                    (case parse_value n (skip_ws r2) of
                       None \<Rightarrow> None
                     | Some (v, r3) \<Rightarrow>
                        (case skip_ws r3 of
                           [] \<Rightarrow> None
                         | d # r4 \<Rightarrow>
                            if d = CHR ''}'' then Some (JObj (dict_set acc k v), r4)
                            else if d = CHR '','' then parse_members n (dict_set acc k v) (skip_ws r4)
                            else None)))))"

definition json_loads :: "string \<Rightarrow> exn + json" where
  "json_loads text =
    (case parse_value (Suc (length text)) (skip_ws text) of
       None \<Rightarrow> Inl JSONDecodeError
     | Some (v, rest) \<Rightarrow> if skip_ws rest = [] then Inr v else Inl JSONDecodeError)"


section \<open>Answer analyzer (answer\_analyzer.py)\<close>

subsection \<open>String operations of the Python library\<close>

text \<open>
  \<^verbatim>\<open>str.isspace\<close>, \<^verbatim>\<open>str.lower\<close> and the word characters of \<^verbatim>\<open>\w\<close>, on the 8-bit
  code points. \<^verbatim>\<open>text.split()\<close> cuts at runs of whitespace and returns no empty word.
\<close>

definition isspace :: "char \<Rightarrow> bool" where
  "isspace c = ((of_char c :: nat) \<in> set [9, 10, 11, 12, 13, 28, 29, 30, 31, 32, 133, 160])"

definition lower_char :: "char \<Rightarrow> char" where
  "lower_char c =
    (let n = (of_char c :: nat)
     in if (65 \<le> n \<and> n \<le> 90) \<or> (192 \<le> n \<and> n \<le> 222 \<and> n \<noteq> 215) then char_of (n + 32) else c)"

definition lower :: "string \<Rightarrow> string" where
  "lower s = map lower_char s"

definition is_word :: "char \<Rightarrow> bool" where
  "is_word c =
    (let n = (of_char c :: nat)
     in (48 \<le> n \<and> n \<le> 57) \<or> (65 \<le> n \<and> n \<le> 90) \<or> n = 95 \<or> (97 \<le> n \<and> n \<le> 122)
        \<or> n \<in> set [170, 178, 179, 181, 185, 186, 188, 189, 190]
        \<or> (192 \<le> n \<and> n \<noteq> 215 \<and> n \<noteq> 247))"

fun split_from :: "string \<Rightarrow> string \<Rightarrow> string list" where
  "split_from cur [] = (if cur = [] then [] else [rev cur])"
| "split_from cur (c # cs) =
    (if isspace c then (if cur = [] then split_from [] cs else rev cur # split_from [] cs)
     else split_from (c # cur) cs)"

definition split :: "string \<Rightarrow> string list" where
  "split text = split_from [] text"

text \<open>\<^verbatim>\<open>word in text\<close> on strings, and \<^verbatim>\<open>any(word in text for word in words)\<close>.\<close>

definition contains :: "string \<Rightarrow> string \<Rightarrow> bool" where
  "contains text word = sublist word text"

definition any_in :: "string list \<Rightarrow> string \<Rightarrow> bool" where
  "any_in words text = list_ex (contains text) words"

subsection \<open>Derived metadata\<close>

text \<open>
  \<^verbatim>\<open>_estimate_speech_duration\<close>. The expression \<^verbatim>\<open>int((words / 150) * 60)\<close> is float
  arithmetic, whose rounding shows in the result, so it is the parameter \<open>secs\<close>, a function
  of the word count.
\<close>

definition estimate_speech_duration :: "(nat \<Rightarrow> int) \<Rightarrow> string \<Rightarrow> int" where
  "estimate_speech_duration secs text = (let words = length (split text) in max 1 (secs words))"

definition classify_question_type :: "string \<Rightarrow> string" where
  "classify_question_type question =
    (let question_lower = lower question
     in if any_in [''tell me about'', ''describe'', ''explain'', ''walk me through''] question_lower
          then ''behavioral''
        else if any_in [''how would you'', ''what would you'', ''design'', ''implement'', ''solve'']
                  question_lower
          then ''technical''
        else if any_in [''why'', ''motivation'', ''interest'', ''passion''] question_lower
          then ''motivational''
        else if any_in [''strengths'', ''weaknesses'', ''skills'', ''abilities''] question_lower
          then ''self-assessment''
        else ''general'')"

text \<open>
  \<^verbatim>\<open>len(re.split(r'[.!?]+', answer))\<close>: one piece more than there are maximal runs of the
  three characters.
\<close>

definition is_stop :: "char \<Rightarrow> bool" where
  "is_stop c = (c = CHR ''.'' \<or> c = CHR ''!'' \<or> c = CHR ''?'')"

fun stop_runs :: "bool \<Rightarrow> string \<Rightarrow> nat" where
  "stop_runs in_run [] = 0"
| "stop_runs in_run (c # cs) =
    (if is_stop c then (if in_run then stop_runs True cs else Suc (stop_runs True cs))
     else stop_runs False cs)"

definition sentence_count :: "string \<Rightarrow> nat" where
  "sentence_count answer = Suc (stop_runs False answer)"

text \<open>
  \<^verbatim>\<open>len(re.findall(r'\b(API|...|performance)\b', answer, re.IGNORECASE))\<close>. A match starts
  where the character before is no word character, spells one of the terms in either case,
  and is followed by no word character; the scan goes on after the match. \<open>skip\<close> counts
  the characters of the current match still to pass.
\<close>

definition technical_term_list :: "string list" where
  "technical_term_list =
    [''API'', ''database'', ''algorithm'', ''framework'', ''architecture'', ''implementation'',
     ''optimization'', ''scalability'', ''security'', ''performance'']"

definition term_at :: "string \<Rightarrow> string \<Rightarrow> bool" where
  "term_at t s =
    (length t \<le> length s \<and> lower (take (length t) s) = lower t
     \<and> (case drop (length t) s of [] \<Rightarrow> True | d # _ \<Rightarrow> \<not> is_word d))"

fun count_terms :: "bool \<Rightarrow> nat \<Rightarrow> string \<Rightarrow> nat" where
  "count_terms prev skip [] = 0"
| "count_terms prev skip (c # cs) =
    (if 0 < skip then count_terms (is_word c) (skip - 1) cs
     else if prev then count_terms (is_word c) 0 cs
     else
       (case find (\<lambda>t. term_at t (c # cs)) technical_term_list of
          Some t \<Rightarrow> Suc (count_terms (is_word c) (length t - 1) cs)
        | None \<Rightarrow> count_terms (is_word c) 0 cs))"

definition technical_terms :: "string \<Rightarrow> nat" where
  "technical_terms answer = count_terms False 0 answer"

text \<open>
  \<^verbatim>\<open>_assess_answer_complexity\<close>. The average sentence length is a quotient of two
  counts that is only compared with 15 and with 10; it is taken exactly.
\<close>

definition assess_answer_complexity :: "string \<Rightarrow> string" where
  "assess_answer_complexity answer =
    (let word_count = length (split answer);
         avg_sentence_length = (of_nat word_count / of_nat (max (sentence_count answer) 1) :: rat)
     in if 100 < word_count \<and> 15 < avg_sentence_length \<and> 2 < technical_terms answer then ''high''
        else if 50 < word_count \<and> 10 < avg_sentence_length then ''medium''
        else ''low'')"

definition analysis_metadata :: "(nat \<Rightarrow> int) \<Rightarrow> string \<Rightarrow> string \<Rightarrow> json" where
  "analysis_metadata secs question answer =
    JObj [(''answer_length'', JNum (of_nat (length (split answer)))),
          (''answer_duration_estimate'', JNum (of_int (estimate_speech_duration secs answer))),
          (''question_type'', JStr (classify_question_type question)),
          (''answer_complexity'', JStr (assess_answer_complexity answer))]"

subsection \<open>Fallback analysis and the analysis operation\<close>

definition get_fallback_analysis :: "(nat \<Rightarrow> int) \<Rightarrow> string \<Rightarrow> string \<Rightarrow> json" where
  "get_fallback_analysis secs question answer =
    (let word_count = length (split answer);
         (overall_rating, completeness, clarity) =
           (if word_count < 10 then (3, 2, 4)
            else if word_count < 30 then (5, 4, 6)
            else if word_count < 60 then (7, 7, 7)
            else (8, 8, 8 :: rat));
         has_example = any_in [''example'', ''for instance'', ''specifically'', ''when''] (lower answer);
         has_technical_terms =
           any_in [''api'', ''database'', ''system'', ''process'', ''method''] (lower answer);
         relevance = (if has_example then 7 else 5);
         specificity = (if has_technical_terms then 8 else 6);
         professionalism = (if 50 < length answer then 8 else 6)
     in JObj
         [(''overall_rating'', JNum overall_rating),
          (''detailed_scores'',
           JObj [(''relevance'', JNum relevance),
                 (''completeness'', JNum completeness),
                 (''clarity'', JNum clarity),
                 (''specificity'', JNum specificity),
                 (''professionalism'', JNum professionalism)]),
          (''strengths'',
           JArr [JStr (if 0 < word_count then ''Provided a response'' else ''Attempted to answer''),
                 JStr (if 20 \<le> word_count \<and> word_count \<le> 100 then ''Appropriate length''
                       else if 100 < word_count then ''Good length''
                       else ''Could be more detailed'')]),
          (''weaknesses'',
           JArr [JStr (if \<not> has_example then ''Could provide more specific examples''
                       else ''Good use of examples''),
                 JStr (if word_count < 30 then ''Could be more detailed''
                       else ''Good level of detail'')]),
          (''suggestions'',
           JArr [JStr ''Provide specific examples to support your points'',
                 JStr ''Elaborate on your experience and achievements'',
                 JStr ''Use the STAR method (Situation, Task, Action, Result) for behavioral questions'']),
          (''key_points'', JArr (map JStr (take 10 (split answer)))),
          (''sentiment'',
           JStr (if 7 \<le> overall_rating then ''positive''
                 else if 5 \<le> overall_rating then ''neutral'' else ''negative'')),
          (''confidence_level'',
           JStr (if 8 \<le> overall_rating then ''high''
                 else if 6 \<le> overall_rating then ''medium'' else ''low'')),
          (''analysis_metadata'', analysis_metadata secs question answer)])"

text \<open>
  The body of the \<^verbatim>\<open>try\<close> in \<^verbatim>\<open>analyze_answer\<close>. The context dictionary only enters the
  prompt. \<^verbatim>\<open>response["analysis_metadata"] = ...\<close> stores into a dictionary; on a parsed
  value of any other kind the assignment raises TypeError.
\<close>

definition analyze_answer_try ::
  "ai_service \<Rightarrow> (string \<Rightarrow> exn + json) \<Rightarrow> (nat \<Rightarrow> int) \<Rightarrow> exn + string
    \<Rightarrow> string \<Rightarrow> string \<Rightarrow> exn + json" where
  "analyze_answer_try svc loads secs reply question answer =
    (case generate_structured_response svc loads reply of
       Inl e \<Rightarrow> Inl e
     | Inr (JObj response) \<Rightarrow>
        Inr (JObj (dict_set response ''analysis_metadata'' (analysis_metadata secs question answer)))
     | Inr _ \<Rightarrow> Inl TypeError)"

definition analyze_answer ::
  "ai_service \<Rightarrow> (string \<Rightarrow> exn + json) \<Rightarrow> (nat \<Rightarrow> int) \<Rightarrow> exn + string
    \<Rightarrow> string \<Rightarrow> string \<Rightarrow> (string \<times> json) list \<Rightarrow> json" where
  "analyze_answer svc loads secs reply question answer context =
    (case analyze_answer_try svc loads secs reply question answer of
       Inr response \<Rightarrow> response
     | Inl e \<Rightarrow> get_fallback_analysis secs question answer)"


section \<open>Report generator (report\_generator.py)\<close>

subsection \<open>Arithmetic of the Python library\<close>

text \<open>
  \<^verbatim>\<open>a / b\<close> raises ZeroDivisionError on a zero divisor. \<^verbatim>\<open>max\<close> and \<^verbatim>\<open>min\<close> of a
  non-empty list fold over it. \<^verbatim>\<open>round(x, 2)\<close> is float arithmetic of the library: which
  of the two neighbours it returns near a decimal tie depends on the binary float it is
  handed, which differs from the exact value by the rounding of the arithmetic before it. So
  it is the parameter \<open>rnd\<close> of the metrics: \<open>rnd x\<close> is what the call returns where the
  exact value of its argument is \<open>x\<close>.
\<close>

definition true_div :: "rat \<Rightarrow> rat \<Rightarrow> exn + rat" where
  "true_div a b = (if b = 0 then Inl ZeroDivisionError else Inr (a / b))"

definition py_max :: "rat \<Rightarrow> rat list \<Rightarrow> rat" where
  "py_max r rs = fold max rs r"

definition py_min :: "rat \<Rightarrow> rat list \<Rightarrow> rat" where
  "py_min r rs = fold min rs r"

text \<open>\<^verbatim>\<open>sum(ratings) / len(ratings) if ratings else 0\<close>, used by several sections.\<close>

definition average_or_zero :: "rat list \<Rightarrow> rat" where
  "average_or_zero ratings = (if ratings = [] then 0 else sum_list ratings / of_nat (length ratings))"

subsection \<open>Metrics\<close>

text \<open>
  \<^verbatim>\<open>_calculate_metrics\<close>. Of the entries of the returned dictionary only
  \<^verbatim>\<open>questions_per_minute\<close> can raise: it divides by \<^verbatim>\<open>duration // 60000\<close> whenever
  \<^verbatim>\<open>duration > 0\<close>.
\<close>

definition calculate_metrics ::
  "(rat \<Rightarrow> rat) \<Rightarrow> json list \<Rightarrow> json list \<Rightarrow> rat list \<Rightarrow> int
    \<Rightarrow> exn + (string \<times> json) list" where
  "calculate_metrics rnd questions answers ratings duration =
    (case ratings of
       [] \<Rightarrow> Inr [(''error'', JStr ''No ratings available'')]
     | r # rs \<Rightarrow>
        (let avg_rating = sum_list ratings / of_nat (length ratings);
             max_rating = py_max r rs;
             min_rating = py_min r rs;
             variance = sum_list (map (\<lambda>r. (r - avg_rating) ^ 2) ratings) / of_nat (length ratings);
             consistency = 10 - min 9 variance;
             excellent_responses = length (filter (\<lambda>r. 8 \<le> r) ratings);
             good_responses = length (filter (\<lambda>r. 6 \<le> r \<and> r < 8) ratings);
             poor_responses = length (filter (\<lambda>r. r < 6) ratings)
         in case (if 0 < duration
                  then true_div (of_nat (length questions)) (of_int (duration div 60000))
                  else Inr 0) of
              Inl e \<Rightarrow> Inl e
            | Inr questions_per_minute \<Rightarrow>
               Inr
                 [(''average_rating'', JNum (rnd avg_rating)),
                  (''max_rating'', JNum max_rating),
                  (''min_rating'', JNum min_rating),
                  (''consistency_score'', JNum (rnd consistency)),
                  (''total_questions'', JNum (of_nat (length questions))),
                  (''total_answers'', JNum (of_nat (length answers))),
                  (''response_rate'',
                   JNum (if questions \<noteq> [] then of_nat (length answers) / of_nat (length questions)
                         else 0)),
                  (''excellent_responses'', JNum (of_nat excellent_responses)),
                  (''good_responses'', JNum (of_nat good_responses)),
                  (''poor_responses'', JNum (of_nat poor_responses)),
                  (''duration_minutes'',
                   JNum (if duration \<noteq> 0 then of_int (duration div 60000) else 0)),
                  (''questions_per_minute'', JNum questions_per_minute)]))"

subsection \<open>Per-question analysis\<close>

text \<open>
  \<^verbatim>\<open>q.get('text', q) if isinstance(q, dict) else q\<close> and its twin for answers.
\<close>

definition question_text :: "json \<Rightarrow> json" where
  "question_text q =
    (case q of
       JObj d \<Rightarrow> (case dict_get d ''text'' of Some t \<Rightarrow> t | None \<Rightarrow> q)
     | _ \<Rightarrow> q)"

definition answer_text :: "json \<Rightarrow> json" where
  "answer_text a =
    (case a of
       JObj d \<Rightarrow> (case dict_get d ''answer'' of Some t \<Rightarrow> t | None \<Rightarrow> a)
     | _ \<Rightarrow> a)"

definition get_rating_category :: "rat \<Rightarrow> string" where
  "get_rating_category rating =
    (if 8 \<le> rating then ''Excellent''
     else if 6 \<le> rating then ''Good''
     else if 4 \<le> rating then ''Average''
     else ''Poor'')"

text \<open>
  \<^verbatim>\<open>_extract_key_insights\<close> calls \<^verbatim>\<open>answer.lower()\<close>, which only a string has.
\<close>

definition extract_key_insights :: "json \<Rightarrow> exn + json" where
  "extract_key_insights answer =
    (case answer of
       JStr a \<Rightarrow>
        Inr (JArr (map JStr (take 3
          ((if contains (lower a) ''experience'' then [''Mentioned relevant experience''] else [])
           @ (if contains (lower a) ''challenge'' then [''Discussed challenges''] else [])
           @ (if contains (lower a) ''team'' then [''Referenced teamwork''] else [])
           @ (if contains (lower a) ''learn'' then [''Showed learning mindset''] else [])))))
     | _ \<Rightarrow> Inl AttributeError)"

fun qa_entries :: "nat \<Rightarrow> (json \<times> json \<times> rat) list \<Rightarrow> exn + json list" where
  "qa_entries i [] = Inr []"
| "qa_entries i ((question, answer, rating) # rest) =
    (case extract_key_insights (answer_text answer) of
       Inl e \<Rightarrow> Inl e
     | Inr key_insights \<Rightarrow>
        (case qa_entries (Suc i) rest of
           Inl e \<Rightarrow> Inl e
         | Inr entries \<Rightarrow>
            Inr (JObj [(''question_number'', JNum (of_nat (i + 1))),
                       (''question'', question_text question),
                       (''answer'', answer_text answer),
                       (''rating'', JNum rating),
                       (''rating_category'', JStr (get_rating_category rating)),
                       (''key_insights'', key_insights)] # entries)))"

definition generate_qa_analysis :: "json list \<Rightarrow> json list \<Rightarrow> rat list \<Rightarrow> exn + json" where
  "generate_qa_analysis questions answers ratings =
    (case qa_entries 0 (zip questions (zip answers ratings)) of
       Inl e \<Rightarrow> Inl e
     | Inr entries \<Rightarrow> Inr (JArr entries))"

subsection \<open>Section fallbacks\<close>

text \<open>
  The format \<^verbatim>\<open>{avg_rating:.1f}\<close> is float formatting of the library: the parameter \<open>fmt\<close>.
\<close>

definition get_fallback_executive_summary :: "(rat \<Rightarrow> string) \<Rightarrow> rat list \<Rightarrow> json" where
  "get_fallback_executive_summary fmt ratings =
    (let avg_rating = average_or_zero ratings
     in JObj [(''summary'',
               JStr (''Interview completed with average rating of '' @ fmt avg_rating
                     @ ''/10. Manual review recommended.'')),
              (''key_highlights'', JArr [JStr ''Interview conducted'']),
              (''concerns'', JArr [JStr ''AI analysis unavailable'']),
              (''recommendation'', JStr ''Manual review required'')])"

definition get_fallback_detailed_analysis :: json where
  "get_fallback_detailed_analysis =
    JObj [(''communication_analysis'', JStr ''Manual review required''),
          (''technical_analysis'', JStr ''Manual review required''),
          (''experience_analysis'', JStr ''Manual review required'')]"

definition get_fallback_strengths_weaknesses :: json where
  "get_fallback_strengths_weaknesses =
    JObj [(''strengths'',
           JArr [JObj [(''strength'', JStr ''Completed interview''),
                       (''evidence'', JStr ''Participated in all questions''),
                       (''impact'', JStr ''Showed engagement'')]]),
          (''weaknesses'',
           JArr [JObj [(''weakness'', JStr ''Analysis pending''),
                       (''evidence'', JStr ''AI analysis unavailable''),
                       (''improvement_suggestion'', JStr ''Manual review required'')]])]"

definition get_fallback_recommendations :: "(rat \<Rightarrow> string) \<Rightarrow> rat \<Rightarrow> json" where
  "get_fallback_recommendations fmt avg_rating =
    (let recommendation =
       (if 7 \<le> avg_rating then ''Hire'' else if 5 \<le> avg_rating then ''Consider'' else ''No Hire'')
     in JObj [(''recommendation'', JStr recommendation),
              (''rationale'', JStr (''Based on average rating of '' @ fmt avg_rating @ ''/10''))])"

definition get_fallback_next_steps :: "rat \<Rightarrow> json" where
  "get_fallback_next_steps avg_rating =
    JArr [JObj [(''step'', JStr ''Manual review of interview responses''),
                (''timeline'', JStr ''Within 2 business days''),
                (''priority'', JStr ''High''),
                (''description'', JStr ''Review all Q&A responses manually'')],
          JObj [(''step'', JStr ''Reference checks''),
                (''timeline'', JStr ''Within 1 week''),
                (''priority'', JStr ''Medium''),
                (''description'', JStr ''Contact provided references'')]]"

text \<open>\<^verbatim>\<open>metrics.get("average_rating", 5)\<close> on the metrics dictionary.\<close>

definition get_fallback_overall_assessment :: "(string \<times> json) list \<Rightarrow> json" where
  "get_fallback_overall_assessment metrics =
    JObj [(''overall_score'',
           (case dict_get metrics ''average_rating'' of Some v \<Rightarrow> v | None \<Rightarrow> JNum 5)),
          (''performance_level'', JStr ''Needs Review''),
          (''key_takeaways'', JArr [JStr ''Manual analysis required'']),
          (''risk_assessment'', JStr ''Unknown''),
          (''success_potential'', JStr ''To be determined'')]"

subsection \<open>Section generators\<close>

text \<open>
  Each section generator wraps its provider call in its own \<^verbatim>\<open>try\<close> and returns its
  fallback on any exception. The prompts are not built here, but the one exception a prompt
  can raise is: \<^verbatim>\<open>_format_answers_for_prompt\<close> slices each of the first three answers
  (\<^verbatim>\<open>answer_text[:200]\<close>), which raises on anything but a string or a list, inside the
  \<^verbatim>\<open>try\<close> of the executive summary. The other formatting helpers only interpolate.
\<close>

definition sliceable :: "json \<Rightarrow> bool" where
  "sliceable v = (case v of JStr s \<Rightarrow> True | JArr xs \<Rightarrow> True | _ \<Rightarrow> False)"

definition format_answers_for_prompt :: "json list \<Rightarrow> exn + unit" where
  "format_answers_for_prompt answers =
    (if list_all (\<lambda>a. sliceable (answer_text a)) answers then Inr () else Inl TypeError)"

definition generate_executive_summary ::
  "ai_service \<Rightarrow> (string \<Rightarrow> exn + json) \<Rightarrow> (rat \<Rightarrow> string) \<Rightarrow> exn + string
    \<Rightarrow> json list \<Rightarrow> json list \<Rightarrow> rat list \<Rightarrow> int \<Rightarrow> json" where
  "generate_executive_summary svc loads fmt reply questions answers ratings duration =
    (case (case format_answers_for_prompt (take 3 answers) of
             Inl e \<Rightarrow> Inl e
           | Inr prompt \<Rightarrow> generate_structured_response svc loads reply) of
       Inr response \<Rightarrow> response
     | Inl e \<Rightarrow> get_fallback_executive_summary fmt ratings)"

definition generate_detailed_analysis ::
  "ai_service \<Rightarrow> (string \<Rightarrow> exn + json) \<Rightarrow> exn + string \<Rightarrow> json" where
  "generate_detailed_analysis svc loads reply =
    (case generate_structured_response svc loads reply of
       Inr response \<Rightarrow> response
     | Inl e \<Rightarrow> get_fallback_detailed_analysis)"

definition generate_strengths_weaknesses ::
  "ai_service \<Rightarrow> (string \<Rightarrow> exn + json) \<Rightarrow> exn + string \<Rightarrow> json" where
  "generate_strengths_weaknesses svc loads reply =
    (case generate_structured_response svc loads reply of
       Inr response \<Rightarrow> response
     | Inl e \<Rightarrow> get_fallback_strengths_weaknesses)"

definition generate_recommendations ::
  "ai_service \<Rightarrow> (string \<Rightarrow> exn + json) \<Rightarrow> (rat \<Rightarrow> string) \<Rightarrow> exn + string \<Rightarrow> rat list \<Rightarrow> json" where
  "generate_recommendations svc loads fmt reply ratings =
    (let avg_rating = average_or_zero ratings
     in case generate_structured_response svc loads reply of
          Inr response \<Rightarrow> response
        | Inl e \<Rightarrow> get_fallback_recommendations fmt avg_rating)"

definition generate_next_steps ::
  "ai_service \<Rightarrow> (string \<Rightarrow> exn + json) \<Rightarrow> exn + string \<Rightarrow> rat list \<Rightarrow> json" where
  "generate_next_steps svc loads reply ratings =
    (let avg_rating = average_or_zero ratings
     in case generate_structured_response svc loads reply of
          Inr (JObj response) \<Rightarrow>
           (case dict_get response ''next_steps'' of Some steps \<Rightarrow> steps | None \<Rightarrow> JArr [])
        | Inr _ \<Rightarrow> get_fallback_next_steps avg_rating
        | Inl e \<Rightarrow> get_fallback_next_steps avg_rating)"

definition generate_overall_assessment ::
  "ai_service \<Rightarrow> (string \<Rightarrow> exn + json) \<Rightarrow> exn + string \<Rightarrow> (string \<times> json) list \<Rightarrow> json" where
  "generate_overall_assessment svc loads reply metrics =
    (case generate_structured_response svc loads reply of
       Inr response \<Rightarrow> response
     | Inl e \<Rightarrow> get_fallback_overall_assessment metrics)"

subsection \<open>The report\<close>

text \<open>
  The bundle handed to \<^verbatim>\<open>generate_report\<close>; a field is \<open>None\<close> when its key is absent,
  and \<^verbatim>\<open>interview_data.get(key, default)\<close> then supplies the default. Questions and answers
  are strings or dictionaries, ratings are numbers, the duration is a whole number of
  milliseconds.
\<close>

record interview_data =
  data_questions :: "json list option"
  data_answers :: "json list option"
  data_ratings :: "rat list option"
  data_duration :: "int option"
  data_candidate_info :: "json option"

definition get_or :: "'a option \<Rightarrow> 'a \<Rightarrow> 'a" where
  "get_or field dflt = (case field of Some v \<Rightarrow> v | None \<Rightarrow> dflt)"

text \<open>The outcomes of the six provider calls of one report, in the order they are made.\<close>

record report_replies =
  summary_reply :: "exn + string"
  analysis_reply :: "exn + string"
  strengths_reply :: "exn + string"
  recommendations_reply :: "exn + string"
  next_steps_reply :: "exn + string"
  assessment_reply :: "exn + string"

text \<open>
  \<^verbatim>\<open>_get_fallback_report\<close>. It computes the metrics again, outside any \<^verbatim>\<open>try\<close>.
  \<open>now\<close> is the text of \<^verbatim>\<open>datetime.now().isoformat()\<close>.
\<close>

definition get_fallback_report ::
  "(rat \<Rightarrow> rat) \<Rightarrow> string \<Rightarrow> interview_data \<Rightarrow> exn + json" where
  "get_fallback_report rnd now data =
    (case calculate_metrics rnd (get_or (data_questions data) []) (get_or (data_answers data) [])
            (get_or (data_ratings data) []) (get_or (data_duration data) 0) of
       Inl e \<Rightarrow> Inl e
     | Inr metrics \<Rightarrow>
        Inr (JObj
          [(''report_metadata'',
            JObj [(''generated_at'', JStr now), (''status'', JStr ''fallback_report'')]),
           (''executive_summary'',
            JObj [(''summary'',
                   JStr ''Interview completed. Please review individual Q&A for detailed assessment.''),
                  (''key_highlights'', JArr [JStr ''Interview conducted successfully'']),
                  (''concerns'', JArr []),
                  (''recommendation'', JStr ''Manual review required'')]),
           (''overall_assessment'',
            JObj [(''overall_score'', JNum 5),
                  (''performance_level'', JStr ''Needs Review''),
                  (''key_takeaways'', JArr [JStr ''Manual analysis required'']),
                  (''risk_assessment'', JStr ''Unknown''),
                  (''success_potential'', JStr ''To be determined'')]),
           (''metrics'', JObj metrics),
           (''recommendations'',
            JObj [(''recommendation'', JStr ''Manual Review Required''),
                  (''rationale'', JStr ''AI analysis unavailable'')])]))"

text \<open>The body of the \<^verbatim>\<open>try\<close> in \<^verbatim>\<open>generate_report\<close>.\<close>

definition generate_report_try ::
  "ai_service \<Rightarrow> (string \<Rightarrow> exn + json) \<Rightarrow> (rat \<Rightarrow> string) \<Rightarrow> (rat \<Rightarrow> rat)
    \<Rightarrow> report_replies \<Rightarrow> string \<Rightarrow> interview_data \<Rightarrow> exn + json" where
  "generate_report_try svc loads fmt rnd replies now data =
    (let questions = get_or (data_questions data) [];
         answers = get_or (data_answers data) [];
         ratings = get_or (data_ratings data) [];
         duration = get_or (data_duration data) 0;
         executive_summary =
           generate_executive_summary svc loads fmt (summary_reply replies)
             questions answers ratings duration;
         detailed_analysis = generate_detailed_analysis svc loads (analysis_reply replies);
         strengths_weaknesses = generate_strengths_weaknesses svc loads (strengths_reply replies);
         recommendations =
           generate_recommendations svc loads fmt (recommendations_reply replies) ratings;
         next_steps = generate_next_steps svc loads (next_steps_reply replies) ratings
     in case calculate_metrics rnd questions answers ratings duration of
          Inl e \<Rightarrow> Inl e
        | Inr metrics \<Rightarrow>
           (let overall_assessment =
                  generate_overall_assessment svc loads (assessment_reply replies) metrics
            in case generate_qa_analysis questions answers ratings of
                 Inl e \<Rightarrow> Inl e
               | Inr qa_analysis \<Rightarrow>
                  Inr (JObj
                    [(''report_metadata'',
                      JObj [(''generated_at'', JStr now),
                            (''interview_duration'', JNum (of_int duration)),
                            (''total_questions'', JNum (of_nat (length questions))),
                            (''total_answers'', JNum (of_nat (length answers))),
                            (''ai_provider'', JStr (get_current_provider svc))]),
                     (''executive_summary'', executive_summary),
                     (''overall_assessment'', overall_assessment),
                     (''metrics'', JObj metrics),
                     (''detailed_analysis'', detailed_analysis),
                     (''strengths_weaknesses'', strengths_weaknesses),
                     (''recommendations'', recommendations),
                     (''next_steps'', next_steps),
                     (''qa_analysis'', qa_analysis)])))"

text \<open>
  \<^verbatim>\<open>generate_report\<close>: the value of the \<^verbatim>\<open>try\<close>, or on any exception the result of
  \<^verbatim>\<open>_get_fallback_report\<close>, whose own exception nothing catches.
\<close>

definition generate_report ::
  "ai_service \<Rightarrow> (string \<Rightarrow> exn + json) \<Rightarrow> (rat \<Rightarrow> string) \<Rightarrow> (rat \<Rightarrow> rat)
    \<Rightarrow> report_replies \<Rightarrow> string \<Rightarrow> interview_data \<Rightarrow> exn + json" where
  "generate_report svc loads fmt rnd replies now data =
    (case generate_report_try svc loads fmt rnd replies now data of
       Inr report \<Rightarrow> Inr report
     | Inl e \<Rightarrow> get_fallback_report rnd now data)"

section \<open>Notions used in the statements\<close>

text \<open>\<^verbatim>\<open>value[key]\<close> read off a result: \<open>None\<close> when the value is no dictionary or lacks the key.\<close>

definition obj_get :: "json \<Rightarrow> string \<Rightarrow> json option" where
  "obj_get v k = (case v of JObj d \<Rightarrow> dict_get d k | _ \<Rightarrow> None)"

text \<open>
  An analysis is well scored when its \<^verbatim>\<open>overall_rating\<close> is a number from 1 to 10 and its
  \<^verbatim>\<open>detailed_scores\<close> is a dictionary with exactly the five dimensions, each a number from
  1 to 10.
\<close>

definition in_score_range :: "json \<Rightarrow> bool" where
  "in_score_range v = (case v of JNum n \<Rightarrow> 1 \<le> n \<and> n \<le> 10 | _ \<Rightarrow> False)"

definition five_dimensions :: "string list" where
  "five_dimensions = [''relevance'', ''completeness'', ''clarity'', ''specificity'', ''professionalism'']"

definition well_scored :: "json \<Rightarrow> bool" where
  "well_scored analysis =
    ((case obj_get analysis ''overall_rating'' of
        Some r \<Rightarrow> in_score_range r
      | None \<Rightarrow> False)
     \<and> (case obj_get analysis ''detailed_scores'' of
          Some (JObj scores) \<Rightarrow>
            distinct (dict_keys scores) \<and> set (dict_keys scores) = set five_dimensions
            \<and> list_all in_score_range (map snd scores)
        | _ \<Rightarrow> False))"

text \<open>
  The band of the fallback rating for a word count, as the specification words it.
\<close>

definition rating_band :: "nat \<Rightarrow> rat" where
  "rating_band words = (if words < 10 then 3 else if words < 30 then 5 else if words < 60 then 7 else 8)"

text \<open>
  A stand-in for the float expression of \<^verbatim>\<open>_estimate_speech_duration\<close> at concrete inputs:
  its value in exact arithmetic, which the float result equals for every count below 615.
\<close>

definition exact_speech_seconds :: "nat \<Rightarrow> int" where
  "exact_speech_seconds words = \<lfloor>(of_nat words / 150 :: rat) * 60\<rfloor>"

text \<open>
  The arithmetic mean and the population variance of a rating sequence, as the
  specification words them.
\<close>

definition mean :: "rat list \<Rightarrow> rat" where
  "mean rs = sum_list rs / of_nat (length rs)"

definition population_variance :: "rat list \<Rightarrow> rat" where
  "population_variance rs = (\<Sum>r\<leftarrow>rs. (r - mean rs) ^ 2) / of_nat (length rs)"

text \<open>The top-level sections of a primary report and of a whole-report fallback.\<close>

definition primary_sections :: "string list" where
  "primary_sections =
    [''report_metadata'', ''executive_summary'', ''overall_assessment'', ''metrics'',
     ''detailed_analysis'', ''strengths_weaknesses'', ''recommendations'', ''next_steps'',
     ''qa_analysis'']"

definition fallback_sections :: "string list" where
  "fallback_sections =
    [''report_metadata'', ''executive_summary'', ''overall_assessment'', ''metrics'',
     ''recommendations'']"

text \<open>
  Stand-ins for the library's float rounding at concrete inputs. \<open>to_double\<close> is the double
  nearest to a rational (53 significant bits, a tie going to the even mantissa; exponent
  range not limited). \<^verbatim>\<open>round(x, 2)\<close> and the format \<^verbatim>\<open>{x:.1f}\<close> round the exact value
  of that double to two decimals and to one, a tie going to the even neighbour;
  \<open>py_round2\<close> and \<open>format_1f\<close> do so for the double nearest to their argument. That
  is the float the code rounds when the argument is a quotient of two whole numbers, as the
  average of whole ratings is; the float of the consistency score also carries the rounding
  of the variance computation, so there the stand-in is exact only away from decimal ties.
\<close>

definition round_half_even :: "rat \<Rightarrow> int" where
  "round_half_even x =
    (let f = \<lfloor>x\<rfloor>; d = x - of_int f
     in if d < 1 / 2 then f else if 1 / 2 < d then f + 1 else if even f then f else f + 1)"

fun bit_length :: "nat \<Rightarrow> nat" where
  "bit_length n = (if n = 0 then 0 else Suc (bit_length (n div 2)))"

definition pow2 :: "int \<Rightarrow> rat" where
  "pow2 e = (if 0 \<le> e then 2 ^ nat e else 1 / 2 ^ nat (- e))"

definition floor_log2 :: "rat \<Rightarrow> int" where
  "floor_log2 a =
    (let (p, q) = quotient_of a;
         e = int (bit_length (nat p)) - int (bit_length (nat q))
     in if pow2 e \<le> a then e else e - 1)"

definition to_double :: "rat \<Rightarrow> rat" where
  "to_double x =
    (if x = 0 then 0
     else (let ulp = pow2 (floor_log2 \<bar>x\<bar> - 52)
           in sgn x * of_int (round_half_even (\<bar>x\<bar> / ulp)) * ulp))"

definition py_round2 :: "rat \<Rightarrow> rat" where
  "py_round2 x = of_int (round_half_even (to_double x * 100)) / 100"

fun decimal :: "nat \<Rightarrow> string" where
  "decimal n = (if n < 10 then [char_of (48 + n)] else decimal (n div 10) @ [char_of (48 + n mod 10)])"

definition format_1f :: "rat \<Rightarrow> string" where
  "format_1f x =
    (let tenths = nat \<bar>round_half_even (to_double x * 10)\<bar>
     in (if x < 0 then ''-'' else []) @ decimal (tenths div 10) @ ''.'' @ decimal (tenths mod 10))"

text \<open>
  \<open>y\<close> is \<open>x\<close> rounded to two decimal places: a whole number of hundredths at most 0.005
  away, either neighbour at a tie.
\<close>

definition two_decimals :: "rat \<Rightarrow> rat \<Rightarrow> bool" where
  "two_decimals y x = (of_int \<lfloor>y * 100\<rfloor> = y * 100 \<and> \<bar>y - x\<bar> \<le> 1 / 200)"

text \<open>The keys of a returned report, in order; empty for an exception or a non-dictionary.\<close>

definition report_sections :: "exn + json \<Rightarrow> string list" where
  "report_sections result = (case result of Inr (JObj d) \<Rightarrow> dict_keys d | _ \<Rightarrow> [])"

section \<open>Properties of the provider service\<close>

text \<open>
  C8. A call to \<^verbatim>\<open>configure_provider\<close> with a provider name outside the registry, or with
  a key that \<^verbatim>\<open>validate_config\<close> rejects (the empty key), returns \<open>False\<close> and leaves
  the service, hence the active pair, as it was. Whatever the arguments, a \<open>False\<close> result
  leaves the service unchanged and a \<open>True\<close> result installs the requested provider name
  with an instance built from the given key. The call is a total function: it never raises.
\<close>

theorem configure_provider_failure_keeps_active:
  "(map_of providers provider = None
      \<or> (\<exists>c. map_of providers provider = Some c \<and> \<not> validate_config c key)
     \<longrightarrow> configure_provider svc provider key mdl settings = (False, svc))
   \<and> (fst (configure_provider svc provider key mdl settings) = False
     \<longrightarrow> snd (configure_provider svc provider key mdl settings) = svc)
   \<and> (fst (configure_provider svc provider key mdl settings) = True
     \<longrightarrow> current_provider (snd (configure_provider svc provider key mdl settings)) = Some provider
       \<and> (\<exists>i. current_instance (snd (configure_provider svc provider key mdl settings)) = Some i
             \<and> api_key i = key \<and> map_of providers provider = Some (provider_cls i)))"
  by (auto simp: configure_provider_def Let_def split: option.splits sum.splits)

text \<open>
  With OpenAI active: an unknown name and an empty key both fail and change nothing, and a
  valid Gemini configuration succeeds and becomes the active pair.
\<close>

theorem configure_provider_failure_keeps_active_witness:
  "map_of providers ''llama'' = None
   \<and> configure_provider
        \<lparr>current_provider = Some ''openai'',
         current_instance = Some \<lparr>provider_cls = OpenAIProvider, api_key = ''sk-1'', model = ''gpt-4''\<rparr>\<rparr>
        ''llama'' ''sk-2'' None None
      = (False,
         \<lparr>current_provider = Some ''openai'',
          current_instance = Some \<lparr>provider_cls = OpenAIProvider, api_key = ''sk-1'', model = ''gpt-4''\<rparr>\<rparr>)
   \<and> (\<exists>c. map_of providers ''gemini'' = Some c \<and> \<not> validate_config c [])
   \<and> configure_provider
        \<lparr>current_provider = Some ''openai'',
         current_instance = Some \<lparr>provider_cls = OpenAIProvider, api_key = ''sk-1'', model = ''gpt-4''\<rparr>\<rparr>
        ''gemini'' [] None None
      = (False,
         \<lparr>current_provider = Some ''openai'',
          current_instance = Some \<lparr>provider_cls = OpenAIProvider, api_key = ''sk-1'', model = ''gpt-4''\<rparr>\<rparr>)
   \<and> fst (configure_provider
        \<lparr>current_provider = Some ''openai'',
         current_instance = Some \<lparr>provider_cls = OpenAIProvider, api_key = ''sk-1'', model = ''gpt-4''\<rparr>\<rparr>
        ''gemini'' ''sk-2'' None None) = True
   \<and> current_provider (snd (configure_provider
        \<lparr>current_provider = Some ''openai'',
         current_instance = Some \<lparr>provider_cls = OpenAIProvider, api_key = ''sk-1'', model = ''gpt-4''\<rparr>\<rparr>
        ''gemini'' ''sk-2'' None None)) = Some ''gemini''"
proof -
  let ?svc = "\<lparr>current_provider = Some ''openai'',
    current_instance = Some \<lparr>provider_cls = OpenAIProvider, api_key = ''sk-1'', model = ''gpt-4''\<rparr>\<rparr>"
  have unknown: "map_of providers ''llama'' = None"
    by (simp add: providers_def)
  have invalid: "\<exists>c. map_of providers ''gemini'' = Some c \<and> \<not> validate_config c []"
    by (simp add: providers_def validate_config_def)
  have ok: "fst (configure_provider ?svc ''gemini'' ''sk-2'' None None) = True"
    by (simp add: configure_provider_def providers_def validate_config_def default_model_for_def
        get_available_providers_def)
  from unknown invalid ok
    configure_provider_failure_keeps_active [of "''llama''" "''sk-2''" ?svc None None]
    configure_provider_failure_keeps_active [of "''gemini''" "[]" ?svc None None]
    configure_provider_failure_keeps_active [of "''gemini''" "''sk-2''" ?svc None None]
  show ?thesis by blast
qed

section \<open>Properties of the structured-response contract\<close>

lemma re_search_braces_split:
  assumes "re_search_braces response_text = Some matched"
  shows "\<exists>pre post. response_text = pre @ matched @ post \<and> CHR ''{'' \<notin> set pre \<and> CHR ''}'' \<notin> set post
           \<and> matched \<noteq> [] \<and> hd matched = CHR ''{'' \<and> last matched = CHR ''}''"
proof -
  define pre where "pre = takeWhile (\<lambda>c. c \<noteq> CHR ''{'') response_text"
  define rest where "rest = dropWhile (\<lambda>c. c \<noteq> CHR ''{'') response_text"
  define post where "post = rev (takeWhile (\<lambda>c. c \<noteq> CHR ''}'') (rev rest))"
  have m_def: "matched = rev (dropWhile (\<lambda>c. c \<noteq> CHR ''}'') (rev rest))" and ne: "matched \<noteq> []"
    using assms by (auto simp: re_search_braces_def Let_def rest_def split: if_splits)
  have response_text: "response_text = pre @ rest"
    by (simp add: pre_def rest_def)
  have rest: "rest = matched @ post"
    unfolding m_def post_def
    by (metis rev_append rev_rev_ident takeWhile_dropWhile_id)
  have pre: "CHR ''{'' \<notin> set pre"
    unfolding pre_def by (auto dest: set_takeWhileD)
  have post: "CHR ''}'' \<notin> set post"
    unfolding post_def by (auto dest: set_takeWhileD)
  have "rest \<noteq> []" using rest ne by simp
  then have "hd rest = CHR ''{''"
    unfolding rest_def using hd_dropWhile [of "\<lambda>c. c \<noteq> CHR ''{''" response_text] by simp
  then have hd: "hd matched = CHR ''{''"
    using rest ne by simp
  have "dropWhile (\<lambda>c. c \<noteq> CHR ''}'') (rev rest) \<noteq> []"
    using ne m_def by simp
  then have "hd (dropWhile (\<lambda>c. c \<noteq> CHR ''}'') (rev rest)) = CHR ''}''"
    using hd_dropWhile [of "\<lambda>c. c \<noteq> CHR ''}''" "rev rest"] by simp
  then have last: "last matched = CHR ''}''"
    using ne m_def by (simp add: last_rev)
  from response_text rest pre post ne hd last show ?thesis by auto
qed

lemma re_search_braces_unique:
  assumes "response_text = pre @ matched @ post" "CHR ''{'' \<notin> set pre" "CHR ''}'' \<notin> set post"
    "matched \<noteq> []" "hd matched = CHR ''{''" "last matched = CHR ''}''"
  shows "re_search_braces response_text = Some matched"
proof -
  obtain s ss where s: "matched = s # ss" using assms(4) by (cases matched) auto
  then have s_open: "s = CHR ''{''" using assms(5) by simp
  have a: "dropWhile (\<lambda>c. c \<noteq> CHR ''{'') response_text = matched @ post"
    using assms(1,2) s s_open by (auto simp: dropWhile_append3)
  have b: "dropWhile (\<lambda>c. c \<noteq> CHR ''}'') (rev (matched @ post)) = rev matched"
  proof -
    have "rev matched \<noteq> []" using assms(4) by simp
    then obtain t ts where t: "rev matched = t # ts" by (cases "rev matched") auto
    then have "t = last matched" using assms(4) by (metis hd_rev list.sel(1))
    then have "t = CHR ''}''" using assms(6) by simp
    moreover have "CHR ''}'' \<notin> set (rev post)" using assms(3) by simp
    ultimately show ?thesis using t by (auto simp: dropWhile_append3)
  qed
  show ?thesis
    unfolding re_search_braces_def Let_def a b using assms(4) by simp
qed

lemma parse_first_stage:
  "loads response_text = Inr v \<Longrightarrow> parse_structured_response loads response_text = Inr v"
  by (simp add: parse_structured_response_def)

lemma parse_second_stage:
  "loads response_text = Inl JSONDecodeError \<Longrightarrow>
   parse_structured_response loads response_text =
     (case re_search_braces response_text of
        Some matched \<Rightarrow> loads matched
      | None \<Rightarrow> Inl (Exception ''Could not parse structured response as JSON''))"
  by (simp add: parse_structured_response_def)

lemma example_span:
  "re_search_braces ''Sure! {\"question\":\"Why?\",\"category\":\"General\",\"difficulty\":\"easy\",\"purpose\":\"warmup\"}''
    = Some ''{\"question\":\"Why?\",\"category\":\"General\",\"difficulty\":\"easy\",\"purpose\":\"warmup\"}''"
  by (simp add: re_search_braces_def)

text \<open>
  C5. The contract first decodes the whole response text; when that raises a JSON decode
  error it decodes the matched part instead, which runs from the first opening brace to the
  last closing brace of the text (newlines included), and it raises when there is no such
  part. For the response text \<^verbatim>\<open>Sure! {"question":"Why?","category":"General",\<close>
  \<^verbatim>\<open>"difficulty":"easy","purpose":"warmup"}\<close>, which is not JSON as a whole, the result is
  the decoding of the embedded object text.
\<close>

theorem parse_structured_response_two_stages:
  "(\<forall>v. loads response_text = Inr v \<longrightarrow> parse_structured_response loads response_text = Inr v)
   \<and> (loads response_text = Inl JSONDecodeError \<longrightarrow>
        parse_structured_response loads response_text =
          (case re_search_braces response_text of
             Some matched \<Rightarrow> loads matched
           | None \<Rightarrow> Inl (Exception ''Could not parse structured response as JSON'')))
   \<and> (\<forall>matched. re_search_braces response_text = Some matched \<longleftrightarrow>
        (\<exists>pre post. response_text = pre @ matched @ post \<and> CHR ''{'' \<notin> set pre \<and> CHR ''}'' \<notin> set post
           \<and> matched \<noteq> [] \<and> hd matched = CHR ''{'' \<and> last matched = CHR ''}''))
   \<and> (loads ''Sure! {\"question\":\"Why?\",\"category\":\"General\",\"difficulty\":\"easy\",\"purpose\":\"warmup\"}''
         = Inl JSONDecodeError \<longrightarrow>
        parse_structured_response loads
          ''Sure! {\"question\":\"Why?\",\"category\":\"General\",\"difficulty\":\"easy\",\"purpose\":\"warmup\"}''
         = loads ''{\"question\":\"Why?\",\"category\":\"General\",\"difficulty\":\"easy\",\"purpose\":\"warmup\"}'')"
proof -
  have first: "\<forall>v. loads response_text = Inr v \<longrightarrow> parse_structured_response loads response_text = Inr v"
    by (simp add: parse_first_stage)
  have second: "loads response_text = Inl JSONDecodeError \<longrightarrow>
        parse_structured_response loads response_text =
          (case re_search_braces response_text of
             Some matched \<Rightarrow> loads matched
           | None \<Rightarrow> Inl (Exception ''Could not parse structured response as JSON''))"
    by (simp add: parse_second_stage)
  have greedy: "\<forall>matched. re_search_braces response_text = Some matched \<longleftrightarrow>
        (\<exists>pre post. response_text = pre @ matched @ post \<and> CHR ''{'' \<notin> set pre \<and> CHR ''}'' \<notin> set post
           \<and> matched \<noteq> [] \<and> hd matched = CHR ''{'' \<and> last matched = CHR ''}'')"
    using re_search_braces_split [of response_text] re_search_braces_unique [of response_text] by blast
  have example: "loads ''Sure! {\"question\":\"Why?\",\"category\":\"General\",\"difficulty\":\"easy\",\"purpose\":\"warmup\"}''
         = Inl JSONDecodeError \<longrightarrow>
        parse_structured_response loads
          ''Sure! {\"question\":\"Why?\",\"category\":\"General\",\"difficulty\":\"easy\",\"purpose\":\"warmup\"}''
         = loads ''{\"question\":\"Why?\",\"category\":\"General\",\"difficulty\":\"easy\",\"purpose\":\"warmup\"}''"
    using example_span by (simp add: parse_second_stage del: One_nat_def)
  from first second greedy example show ?thesis by blast
qed


text \<open>
  With the decoder for concrete texts: a reply that is JSON as a whole is decoded directly,
  and the example reply is rejected by the first stage and yields the embedded object.
\<close>

theorem parse_structured_response_two_stages_witness:
  "json_loads ''{\"questions\": []}'' = Inr (JObj [(''questions'', JArr [])])
   \<and> parse_structured_response json_loads ''{\"questions\": []}''
       = Inr (JObj [(''questions'', JArr [])])
   \<and> json_loads ''Sure! {\"question\":\"Why?\",\"category\":\"General\",\"difficulty\":\"easy\",\"purpose\":\"warmup\"}''
       = Inl JSONDecodeError
   \<and> parse_structured_response json_loads
        ''Sure! {\"question\":\"Why?\",\"category\":\"General\",\"difficulty\":\"easy\",\"purpose\":\"warmup\"}''
       = Inr (JObj [(''question'', JStr ''Why?''), (''category'', JStr ''General''),
                    (''difficulty'', JStr ''easy''), (''purpose'', JStr ''warmup'')])"
proof -
  have direct: "json_loads ''{\"questions\": []}'' = Inr (JObj [(''questions'', JArr [])])"
    by code_simp
  have rejected:
    "json_loads ''Sure! {\"question\":\"Why?\",\"category\":\"General\",\"difficulty\":\"easy\",\"purpose\":\"warmup\"}''
      = Inl JSONDecodeError"
    by code_simp
  have embedded:
    "json_loads ''{\"question\":\"Why?\",\"category\":\"General\",\"difficulty\":\"easy\",\"purpose\":\"warmup\"}''
      = Inr (JObj [(''question'', JStr ''Why?''), (''category'', JStr ''General''),
                   (''difficulty'', JStr ''easy''), (''purpose'', JStr ''warmup'')])"
    by code_simp
  from direct rejected embedded
    parse_structured_response_two_stages [of json_loads "''{\"questions\": []}''"]
    parse_structured_response_two_stages [of json_loads
      "''Sure! {\"question\":\"Why?\",\"category\":\"General\",\"difficulty\":\"easy\",\"purpose\":\"warmup\"}''"]
  show ?thesis by simp
qed

section \<open>Properties of the question generator\<close>

lemma length_py_take: "length (py_take count xs) \<le> length xs"
  by (auto simp: py_take_def)

lemma fallback_catalog_lengths:
  "map_of fallback_questions t = Some qs \<Longrightarrow> length qs = 2"
  by (auto simp: fallback_questions_def split: if_splits)

lemma general_catalog:
  "\<exists>qs. map_of fallback_questions ''general'' = Some qs \<and> length qs = 2"
  by (simp add: fallback_questions_def)

lemma get_fallback_questions_at_most_two:
  "\<exists>qs. get_fallback_questions question_type count = JArr qs \<and> length qs \<le> 2"
proof (cases "map_of fallback_questions question_type")
  case None
  obtain g where g: "map_of fallback_questions ''general'' = Some g" "length g = 2"
    using general_catalog by blast
  have "length (py_take count g) \<le> 2"
    using length_py_take [of count g] g(2) by simp
  with None g(1) show ?thesis
    by (simp add: get_fallback_questions_def)
next
  case (Some qs)
  then have "length qs = 2" by (rule fallback_catalog_lengths)
  then have "length (py_take count qs) \<le> 2"
    using length_py_take [of count qs] by simp
  with Some show ?thesis
    by (simp add: get_fallback_questions_def)
qed

lemma unknown_type_uses_general:
  "map_of fallback_questions t = None \<Longrightarrow>
    get_fallback_questions t count = get_fallback_questions ''general'' count"
  by (simp add: get_fallback_questions_def fallback_questions_def)

lemma general_catalog_entries:
  "map_of fallback_questions ''general''
     = Some [fallback_question
               ''Tell me about yourself and your professional background.''
               ''General'' ''easy'' ''Get overview of candidate's experience''
               [''What aspects of your background are most relevant to this role?'',
                ''What are you most proud of in your career?''],
             fallback_question
               ''Why are you interested in this position and our company?''
               ''General'' ''easy'' ''Assess motivation and company research''
               [''What specific aspects of our company culture appeal to you?'',
                ''How do you see yourself contributing to our team?'']]"
  by (simp add: fallback_questions_def)

lemma get_fallback_questions_catalog:
  "\<exists>qs. (map_of fallback_questions question_type = Some qs
          \<or> map_of fallback_questions question_type = None
            \<and> map_of fallback_questions ''general'' = Some qs)
        \<and> length qs = 2
        \<and> get_fallback_questions question_type count = JArr (py_take count qs)"
proof (cases "map_of fallback_questions question_type")
  case None
  obtain g where g: "map_of fallback_questions ''general'' = Some g" "length g = 2"
    using general_catalog by blast
  with None show ?thesis
    by (auto simp: get_fallback_questions_def)
next
  case (Some qs)
  then have "length qs = 2" by (rule fallback_catalog_lengths)
  with Some show ?thesis
    by (auto simp: get_fallback_questions_def)
qed

lemma unknown_type_general_entries:
  "map_of fallback_questions t = None \<Longrightarrow>
   get_fallback_questions t count
     = JArr (py_take count
         [fallback_question
            ''Tell me about yourself and your professional background.''
            ''General'' ''easy'' ''Get overview of candidate's experience''
            [''What aspects of your background are most relevant to this role?'',
             ''What are you most proud of in your career?''],
          fallback_question
            ''Why are you interested in this position and our company?''
            ''General'' ''easy'' ''Assess motivation and company research''
            [''What specific aspects of our company culture appeal to you?'',
             ''How do you see yourself contributing to our team?'']])"
  by (simp add: get_fallback_questions_def general_catalog_entries)

lemma py_take_two:
  "py_take 1 [a, b] = [a]" "py_take 5 [a, b] = [a, b]"
  by (simp_all add: py_take_def)

text \<open>
  C10. The fallback catalog has the three keys \<^verbatim>\<open>technical\<close>, \<^verbatim>\<open>behavioral\<close> and
  \<^verbatim>\<open>general\<close>, each with two questions. For every type and count the fallback is the
  first \<^verbatim>\<open>count\<close> entries of the catalog of that type, or of the \<^verbatim>\<open>general\<close> catalog
  when the type has none, so at most two questions. \<^verbatim>\<open>leadership\<close> and \<^verbatim>\<open>culture_fit\<close>
  have their own prompt instructions but no catalog entry: their fallback is that of
  \<^verbatim>\<open>general\<close>, the questions "Tell me about yourself and your professional background."
  and "Why are you interested in this position and our company?"; a count of 1 gives the
  first of them, a count of 5 both.
\<close>

theorem fallback_catalog_two_per_type:
  "map fst fallback_questions = [''technical'', ''behavioral'', ''general'']
   \<and> map (\<lambda>entry. length (snd entry)) fallback_questions = [2, 2, 2]
   \<and> (\<exists>qs. get_fallback_questions question_type count = JArr qs \<and> length qs \<le> 2)
   \<and> (\<exists>qs. (map_of fallback_questions question_type = Some qs
              \<or> map_of fallback_questions question_type = None
                \<and> map_of fallback_questions ''general'' = Some qs)
            \<and> length qs = 2
            \<and> get_fallback_questions question_type count = JArr (py_take count qs))
   \<and> ''leadership'' \<in> set (map fst type_instructions)
   \<and> ''culture_fit'' \<in> set (map fst type_instructions)
   \<and> get_fallback_questions ''leadership'' count = get_fallback_questions ''general'' count
   \<and> get_fallback_questions ''culture_fit'' count = get_fallback_questions ''general'' count
   \<and> get_fallback_questions ''leadership'' count
      = JArr (py_take count
          [fallback_question
             ''Tell me about yourself and your professional background.''
             ''General'' ''easy'' ''Get overview of candidate's experience''
             [''What aspects of your background are most relevant to this role?'',
              ''What are you most proud of in your career?''],
           fallback_question
             ''Why are you interested in this position and our company?''
             ''General'' ''easy'' ''Assess motivation and company research''
             [''What specific aspects of our company culture appeal to you?'',
              ''How do you see yourself contributing to our team?'']])
   \<and> get_fallback_questions ''culture_fit'' count
      = JArr (py_take count
          [fallback_question
             ''Tell me about yourself and your professional background.''
             ''General'' ''easy'' ''Get overview of candidate's experience''
             [''What aspects of your background are most relevant to this role?'',
              ''What are you most proud of in your career?''],
           fallback_question
             ''Why are you interested in this position and our company?''
             ''General'' ''easy'' ''Assess motivation and company research''
             [''What specific aspects of our company culture appeal to you?'',
              ''How do you see yourself contributing to our team?'']])
   \<and> get_fallback_questions ''leadership'' 1
      = JArr [fallback_question
                ''Tell me about yourself and your professional background.''
                ''General'' ''easy'' ''Get overview of candidate's experience''
                [''What aspects of your background are most relevant to this role?'',
                 ''What are you most proud of in your career?'']]
   \<and> get_fallback_questions ''culture_fit'' 5
      = JArr [fallback_question
                ''Tell me about yourself and your professional background.''
                ''General'' ''easy'' ''Get overview of candidate's experience''
                [''What aspects of your background are most relevant to this role?'',
                 ''What are you most proud of in your career?''],
              fallback_question
                ''Why are you interested in this position and our company?''
                ''General'' ''easy'' ''Assess motivation and company research''
                [''What specific aspects of our company culture appeal to you?'',
                 ''How do you see yourself contributing to our team?'']]"
proof -
  have keys: "map fst fallback_questions = [''technical'', ''behavioral'', ''general'']"
    by (simp add: fallback_questions_def)
  have sizes: "map (\<lambda>entry. length (snd entry)) fallback_questions = [2, 2, 2]"
    by (simp add: fallback_questions_def)
  have own: "''leadership'' \<in> set (map fst type_instructions)"
    "''culture_fit'' \<in> set (map fst type_instructions)"
    by (simp_all add: type_instructions_def)
  have absent: "map_of fallback_questions ''leadership'' = None"
    "map_of fallback_questions ''culture_fit'' = None"
    by (simp_all add: fallback_questions_def)
  then have general: "get_fallback_questions ''leadership'' count = get_fallback_questions ''general'' count"
    "get_fallback_questions ''culture_fit'' count = get_fallback_questions ''general'' count"
    by (simp_all add: unknown_type_uses_general)
  note entries = unknown_type_general_entries [OF absent(1)] unknown_type_general_entries [OF absent(2)]
  have one: "get_fallback_questions ''leadership'' 1
      = JArr [fallback_question
                ''Tell me about yourself and your professional background.''
                ''General'' ''easy'' ''Get overview of candidate's experience''
                [''What aspects of your background are most relevant to this role?'',
                 ''What are you most proud of in your career?'']]"
    by (simp only: entries(1) py_take_two)
  have five: "get_fallback_questions ''culture_fit'' 5
      = JArr [fallback_question
                ''Tell me about yourself and your professional background.''
                ''General'' ''easy'' ''Get overview of candidate's experience''
                [''What aspects of your background are most relevant to this role?'',
                 ''What are you most proud of in your career?''],
              fallback_question
                ''Why are you interested in this position and our company?''
                ''General'' ''easy'' ''Assess motivation and company research''
                [''What specific aspects of our company culture appeal to you?'',
                 ''How do you see yourself contributing to our team?'']]"
    by (simp only: entries(2) py_take_two)
  from keys sizes own general one five
    get_fallback_questions_at_most_two [of question_type count]
    get_fallback_questions_catalog [of question_type count]
    entries(1) [of count] entries(2) [of count]
  show ?thesis by (intro conjI) blast+
qed

text \<open>
  C9. When the prompt is built, the provider answers and the parsed object has no
  \<^verbatim>\<open>questions\<close> key, \<^verbatim>\<open>generate_questions\<close> returns the empty list. Whenever the body of
  the \<^verbatim>\<open>try\<close> returns, its value is the result; the fallback catalog is the result exactly
  when the body raises.
\<close>

theorem generate_questions_missing_key_is_empty:
  "(create_question_prompt candidate_info = Inr ()
      \<and> generate_structured_response svc loads reply = Inr (JObj response)
      \<and> dict_get response ''questions'' = None
     \<longrightarrow> generate_questions svc loads reply context question_type count previous_questions
           candidate_info = JArr [])
   \<and> (\<forall>v. generate_questions_try svc loads reply candidate_info = Inr v
     \<longrightarrow> generate_questions svc loads reply context question_type count previous_questions
           candidate_info = v)
   \<and> (\<forall>e. generate_questions_try svc loads reply candidate_info = Inl e
     \<longrightarrow> generate_questions svc loads reply context question_type count previous_questions
           candidate_info = get_fallback_questions question_type count)"
  by (simp add: generate_questions_def generate_questions_try_def)


text \<open>
  A reply \<^verbatim>\<open>{"items": []}\<close> yields the empty list although the catalog for the type is
  not empty, and a provider that raises yields the catalog.
\<close>

theorem generate_questions_missing_key_is_empty_witness:
  "create_question_prompt [] = Inr ()
   \<and> generate_structured_response
        \<lparr>current_provider = Some ''gemini'',
         current_instance = Some \<lparr>provider_cls = GeminiProvider, api_key = ''k'', model = ''m''\<rparr>\<rparr>
        json_loads (Inr ''{\"items\": []}'') = Inr (JObj [(''items'', JArr [])])
   \<and> dict_get [(''items'', JArr [])] ''questions'' = None
   \<and> generate_questions
        \<lparr>current_provider = Some ''gemini'',
         current_instance = Some \<lparr>provider_cls = GeminiProvider, api_key = ''k'', model = ''m''\<rparr>\<rparr>
        json_loads (Inr ''{\"items\": []}'') [] ''technical'' 5 [] [] = JArr []
   \<and> get_fallback_questions ''technical'' 5 \<noteq> JArr []
   \<and> generate_questions_try
        \<lparr>current_provider = Some ''gemini'',
         current_instance = Some \<lparr>provider_cls = GeminiProvider, api_key = ''k'', model = ''m''\<rparr>\<rparr>
        json_loads (Inl (Exception ''timeout'')) [] = Inl (Exception ''timeout'')
   \<and> generate_questions
        \<lparr>current_provider = Some ''gemini'',
         current_instance = Some \<lparr>provider_cls = GeminiProvider, api_key = ''k'', model = ''m''\<rparr>\<rparr>
        json_loads (Inl (Exception ''timeout'')) [] ''technical'' 5 [] []
      = get_fallback_questions ''technical'' 5"
proof -
  let ?svc = "\<lparr>current_provider = Some ''gemini'',
    current_instance = Some \<lparr>provider_cls = GeminiProvider, api_key = ''k'', model = ''m''\<rparr>\<rparr>"
  have prompt: "create_question_prompt [] = Inr ()"
    by (simp add: create_question_prompt_def dict_get_def)
  have parsed: "generate_structured_response ?svc json_loads (Inr ''{\"items\": []}'')
      = Inr (JObj [(''items'', JArr [])])"
    by code_simp
  have missing: "dict_get [(''items'', JArr [])] ''questions'' = None"
    by (simp add: dict_get_def)
  have catalog: "get_fallback_questions ''technical'' 5 \<noteq> JArr []"
    by (simp add: get_fallback_questions_def fallback_questions_def py_take_def)
  have raised: "generate_questions_try ?svc json_loads (Inl (Exception ''timeout'')) []
      = Inl (Exception ''timeout'')"
    by (simp add: generate_questions_try_def prompt generate_structured_response_def
        provider_generate_structured_response_def)
  from prompt parsed missing catalog raised
    generate_questions_missing_key_is_empty
      [of "[]" ?svc json_loads "Inr ''{\"items\": []}''" "[(''items'', JArr [])]"
          "[]" "''technical''" 5 "[]"]
    generate_questions_missing_key_is_empty
      [of "[]" ?svc json_loads "Inl (Exception ''timeout'')" "[]"
          "[]" "''technical''" 5 "[]"]
  show ?thesis by blast
qed

section \<open>Properties of the answer analyzer\<close>

lemma fallback_analysis_fields:
  "obj_get (get_fallback_analysis secs question answer) ''overall_rating''
     = Some (JNum (rating_band (length (split answer))))"
  "obj_get (get_fallback_analysis secs question answer) ''sentiment''
     = Some (JStr (if 7 \<le> rating_band (length (split answer)) then ''positive''
                   else if 5 \<le> rating_band (length (split answer)) then ''neutral''
                   else ''negative''))"
  "obj_get (get_fallback_analysis secs question answer) ''confidence_level''
     = Some (JStr (if 8 \<le> rating_band (length (split answer)) then ''high''
                   else if 6 \<le> rating_band (length (split answer)) then ''medium''
                   else ''low''))"
  by (simp_all add: get_fallback_analysis_def Let_def obj_get_def dict_get_def rating_band_def)

text \<open>
  C7. The fallback analysis takes its \<^verbatim>\<open>overall_rating\<close> from the word count of the answer
  alone, in the bands below 10, below 30, below 60 and above (3, 5, 7, 8); sentiment and
  confidence level follow from that rating (positive from 7, neutral from 5, else negative;
  high from 8, medium from 6, else low). An answer of five words is rated 3, negative, low.
\<close>

theorem fallback_rating_by_word_count:
  "obj_get (get_fallback_analysis secs question answer) ''overall_rating''
     = Some (JNum (rating_band (length (split answer))))
   \<and> obj_get (get_fallback_analysis secs question answer) ''sentiment''
     = Some (JStr (if 7 \<le> rating_band (length (split answer)) then ''positive''
                   else if 5 \<le> rating_band (length (split answer)) then ''neutral''
                   else ''negative''))
   \<and> obj_get (get_fallback_analysis secs question answer) ''confidence_level''
     = Some (JStr (if 8 \<le> rating_band (length (split answer)) then ''high''
                   else if 6 \<le> rating_band (length (split answer)) then ''medium''
                   else ''low''))
   \<and> (length (split answer) = 5 \<longrightarrow>
        obj_get (get_fallback_analysis secs question answer) ''overall_rating'' = Some (JNum 3)
        \<and> obj_get (get_fallback_analysis secs question answer) ''sentiment'' = Some (JStr ''negative'')
        \<and> obj_get (get_fallback_analysis secs question answer) ''confidence_level'' = Some (JStr ''low''))"
  by (simp add: fallback_analysis_fields) (simp add: rating_band_def)

text \<open>A five-word answer.\<close>

theorem fallback_rating_by_word_count_witness:
  "length (split ''I enjoy writing clean code'') = 5
   \<and> obj_get (get_fallback_analysis exact_speech_seconds ''Why this role?'' ''I enjoy writing clean code'')
        ''overall_rating'' = Some (JNum 3)
   \<and> obj_get (get_fallback_analysis exact_speech_seconds ''Why this role?'' ''I enjoy writing clean code'')
        ''sentiment'' = Some (JStr ''negative'')
   \<and> obj_get (get_fallback_analysis exact_speech_seconds ''Why this role?'' ''I enjoy writing clean code'')
        ''confidence_level'' = Some (JStr ''low'')"
proof -
  have five: "length (split ''I enjoy writing clean code'') = 5"
    by code_simp
  from five
    fallback_rating_by_word_count
      [of exact_speech_seconds "''Why this role?''" "''I enjoy writing clean code''"]
  show ?thesis by blast
qed

lemma fallback_analysis_well_scored:
  "well_scored (get_fallback_analysis secs question answer)"
  by (simp add: get_fallback_analysis_def Let_def well_scored_def obj_get_def dict_get_def
      dict_keys_def in_score_range_def five_dimensions_def split: prod.splits)

lemma dict_get_dict_set_other:
  "k' \<noteq> k \<Longrightarrow> dict_get (dict_set d k v) k' = dict_get d k'"
  by (simp add: dict_get_def dict_set_def update_conv')

lemma well_scored_metadata:
  "well_scored (JObj (dict_set response ''analysis_metadata'' m)) = well_scored (JObj response)"
  by (simp add: well_scored_def obj_get_def dict_get_dict_set_other)

lemma analyze_answer_fallback_path:
  "analyze_answer_try svc loads secs reply question answer = Inl e \<Longrightarrow>
   analyze_answer svc loads secs reply question answer context
     = get_fallback_analysis secs question answer"
  by (simp add: analyze_answer_def)

lemma analyze_answer_ai_path:
  "generate_structured_response svc loads reply = Inr (JObj response) \<Longrightarrow>
   analyze_answer svc loads secs reply question answer context
     = JObj (dict_set response ''analysis_metadata'' (analysis_metadata secs question answer))"
  by (simp add: analyze_answer_def analyze_answer_try_def)

text \<open>
  C2, as the code has it. The fallback analysis is well scored: exactly the five dimensions,
  and the overall rating and each detailed score between 1 and 10; so is every result of
  \<^verbatim>\<open>analyze_answer\<close> whose \<^verbatim>\<open>try\<close> raised. On the AI path the result is the parsed
  object with \<^verbatim>\<open>analysis_metadata\<close> stored into it and nothing else changed: no score is
  clamped and no dimension is added, so the result is well scored exactly when the
  provider's object is.
\<close>

theorem analysis_scores_by_path:
  "well_scored (get_fallback_analysis secs question answer)
   \<and> (\<forall>e. analyze_answer_try svc loads secs reply question answer = Inl e \<longrightarrow>
        well_scored (analyze_answer svc loads secs reply question answer context))
   \<and> (\<forall>response. generate_structured_response svc loads reply = Inr (JObj response) \<longrightarrow>
        analyze_answer svc loads secs reply question answer context
          = JObj (dict_set response ''analysis_metadata'' (analysis_metadata secs question answer))
        \<and> well_scored (analyze_answer svc loads secs reply question answer context)
          = well_scored (JObj response))"
  by (simp add: fallback_analysis_well_scored analyze_answer_fallback_path analyze_answer_ai_path
      well_scored_metadata)

text \<open>
  C2 as stated fails on the AI path: a provider object with \<^verbatim>\<open>overall_rating\<close> 42 and no
  \<^verbatim>\<open>detailed_scores\<close> is returned as it is, with the metadata added.
\<close>

theorem analysis_scores_ai_path_counterexample:
  "analyze_answer
        \<lparr>current_provider = Some ''gemini'',
         current_instance = Some \<lparr>provider_cls = GeminiProvider, api_key = ''k'', model = ''m''\<rparr>\<rparr>
        json_loads exact_speech_seconds (Inr ''{\"overall_rating\": 42}'') ''Why?'' ''Yes'' []
     = JObj [(''overall_rating'', JNum 42),
             (''analysis_metadata'',
              JObj [(''answer_length'', JNum 1), (''answer_duration_estimate'', JNum 1),
                    (''question_type'', JStr ''motivational''), (''answer_complexity'', JStr ''low'')])]
   \<and> \<not> well_scored (analyze_answer
        \<lparr>current_provider = Some ''gemini'',
         current_instance = Some \<lparr>provider_cls = GeminiProvider, api_key = ''k'', model = ''m''\<rparr>\<rparr>
        json_loads exact_speech_seconds (Inr ''{\"overall_rating\": 42}'') ''Why?'' ''Yes'' [])"
  by code_simp

text \<open>
  Without a provider the result is the fallback and well scored; with the provider object
  above the result is as well scored as that object.
\<close>

theorem analysis_scores_by_path_witness:
  "analyze_answer_try
        \<lparr>current_provider = None, current_instance = None\<rparr>
        json_loads exact_speech_seconds (Inr ''{}'') ''Why?'' ''Yes''
     = Inl (Exception ''No AI provider configured'')
   \<and> well_scored (analyze_answer
        \<lparr>current_provider = None, current_instance = None\<rparr>
        json_loads exact_speech_seconds (Inr ''{}'') ''Why?'' ''Yes'' [])
   \<and> generate_structured_response
        \<lparr>current_provider = Some ''gemini'',
         current_instance = Some \<lparr>provider_cls = GeminiProvider, api_key = ''k'', model = ''m''\<rparr>\<rparr>
        json_loads (Inr ''{\"overall_rating\": 42}'')
     = Inr (JObj [(''overall_rating'', JNum 42)])
   \<and> well_scored (analyze_answer
        \<lparr>current_provider = Some ''gemini'',
         current_instance = Some \<lparr>provider_cls = GeminiProvider, api_key = ''k'', model = ''m''\<rparr>\<rparr>
        json_loads exact_speech_seconds (Inr ''{\"overall_rating\": 42}'') ''Why?'' ''Yes'' [])
     = well_scored (JObj [(''overall_rating'', JNum 42)])"
proof -
  let ?svc = "\<lparr>current_provider = Some ''gemini'',
    current_instance = Some \<lparr>provider_cls = GeminiProvider, api_key = ''k'', model = ''m''\<rparr>\<rparr>"
  let ?none = "\<lparr>current_provider = None, current_instance = None\<rparr>"
  have raised: "analyze_answer_try ?none json_loads exact_speech_seconds (Inr ''{}'') ''Why?'' ''Yes''
      = Inl (Exception ''No AI provider configured'')"
    by (simp add: analyze_answer_try_def generate_structured_response_def)
  have parsed: "generate_structured_response ?svc json_loads (Inr ''{\"overall_rating\": 42}'')
      = Inr (JObj [(''overall_rating'', JNum 42)])"
    by code_simp
  from raised parsed
    analysis_scores_by_path
      [of exact_speech_seconds "''Why?''" "''Yes''" ?none json_loads "Inr ''{}''" "[]"]
    analysis_scores_by_path
      [of exact_speech_seconds "''Why?''" "''Yes''" ?svc json_loads
          "Inr ''{\"overall_rating\": 42}''" "[]"]
  show ?thesis by blast
qed

section \<open>Properties of the metrics\<close>

lemma two_decimals_range:
  assumes "two_decimals y x" "1 \<le> x" "x \<le> 10"
  shows "1 \<le> y \<and> y \<le> 10"
proof -
  define k where "k = \<lfloor>y * 100\<rfloor>"
  have k: "of_int k = y * 100" and near: "\<bar>y - x\<bar> \<le> 1 / 200"
    using assms(1) by (simp_all add: two_decimals_def k_def)
  from near assms(2,3) have "199 / 200 \<le> y" "y \<le> 2001 / 200"
    by linarith+
  then have "(99 :: rat) < of_int k" "(of_int k :: rat) < 1001"
    using k by linarith+
  then have "99 < k" "k < 1001"
    by linarith+
  then have "100 \<le> k" "k \<le> 1000"
    by linarith+
  then have "(100 :: rat) \<le> of_int k" "(of_int k :: rat) \<le> 1000"
    by linarith+
  with k show ?thesis by linarith
qed

lemma population_variance_nonneg: "0 \<le> population_variance rs"
  unfolding population_variance_def
  by (intro divide_nonneg_nonneg sum_list_nonneg) auto

lemma consistency_range:
  "1 \<le> 10 - min 9 (population_variance rs) \<and> 10 - min 9 (population_variance rs) \<le> 10"
  using population_variance_nonneg [of rs] by (simp add: min_def)

lemma calculate_metrics_value:
  assumes "ratings \<noteq> []" "calculate_metrics rnd questions answers ratings duration = Inr m"
  shows "dict_get m ''consistency_score''
           = Some (JNum (rnd (10 - min 9 (population_variance ratings))))"
    and "dict_get m ''average_rating'' = Some (JNum (rnd (mean ratings)))"
  using assms
  by (auto simp: calculate_metrics_def Let_def dict_get_def population_variance_def mean_def
      split: list.splits sum.splits if_splits)

lemma calculate_metrics_returns:
  "duration \<le> 0 \<or> 60000 \<le> duration \<Longrightarrow>
   \<exists>m. calculate_metrics rnd questions answers ratings duration = Inr m"
  by (auto simp: calculate_metrics_def Let_def true_div_def split: list.splits sum.splits if_splits)

text \<open>
  C3. The guard of \<^verbatim>\<open>questions_per_minute\<close> tests \<^verbatim>\<open>duration > 0\<close> but divides by
  \<^verbatim>\<open>duration // 60000\<close>, which is zero for every duration below one minute: with one
  question, one answer, the rating 5 and 30000 ms the computation raises ZeroDivisionError
  instead of returning metrics.
\<close>

theorem metrics_division_by_zero:
  "calculate_metrics rnd [JStr ''Tell me about yourself.''] [JStr ''I build web services.''] [5] 30000
     = Inl ZeroDivisionError"
  by (simp add: calculate_metrics_def Let_def true_div_def)

text \<open>
  C6, as the code has it. Whenever \<^verbatim>\<open>_calculate_metrics\<close> returns for a non-empty rating
  sequence, \<^verbatim>\<open>consistency_score\<close> is the library's \<^verbatim>\<open>round(x, 2)\<close> of \<open>10 - min 9 v\<close>,
  with \<open>v\<close> the population variance, and \<^verbatim>\<open>average_rating\<close> is \<^verbatim>\<open>round(x, 2)\<close> of the
  mean. The unrounded \<open>10 - min 9 v\<close> lies between 1 and 10, and so does the score for a
  rounding that returns a whole number of hundredths at most 0.005 from its argument. The
  computation returns for every duration that is not strictly between 0 and 60000.
\<close>

theorem metrics_rounded_consistency:
  "(ratings \<noteq> [] \<and> calculate_metrics rnd questions answers ratings duration = Inr m \<longrightarrow>
      dict_get m ''consistency_score''
        = Some (JNum (rnd (10 - min 9 (population_variance ratings))))
      \<and> dict_get m ''average_rating'' = Some (JNum (rnd (mean ratings)))
      \<and> 1 \<le> 10 - min 9 (population_variance ratings)
      \<and> 10 - min 9 (population_variance ratings) \<le> 10
      \<and> (two_decimals (rnd (10 - min 9 (population_variance ratings)))
            (10 - min 9 (population_variance ratings)) \<longrightarrow>
          1 \<le> rnd (10 - min 9 (population_variance ratings))
          \<and> rnd (10 - min 9 (population_variance ratings)) \<le> 10))
   \<and> (duration \<le> 0 \<or> 60000 \<le> duration \<longrightarrow>
        (\<exists>m'. calculate_metrics rnd questions answers ratings duration = Inr m'))"
proof -
  let ?c = "10 - min 9 (population_variance ratings)"
  have range: "1 \<le> ?c \<and> ?c \<le> 10"
    by (rule consistency_range)
  then have rounded: "two_decimals (rnd ?c) ?c \<longrightarrow> 1 \<le> rnd ?c \<and> rnd ?c \<le> 10"
    using two_decimals_range [of "rnd ?c" ?c] by blast
  have "ratings \<noteq> [] \<and> calculate_metrics rnd questions answers ratings duration = Inr m \<longrightarrow>
      dict_get m ''consistency_score'' = Some (JNum (rnd ?c))
      \<and> dict_get m ''average_rating'' = Some (JNum (rnd (mean ratings)))"
    using calculate_metrics_value [where ratings = ratings and rnd = rnd and m = m
        and questions = questions and answers = answers and duration = duration]
    by blast
  moreover have "duration \<le> 0 \<or> 60000 \<le> duration \<longrightarrow>
        (\<exists>m'. calculate_metrics rnd questions answers ratings duration = Inr m')"
    using calculate_metrics_returns [where duration = duration and rnd = rnd
        and questions = questions and answers = answers and ratings = ratings]
    by blast
  ultimately show ?thesis
    using range rounded by blast
qed

text \<open>
  C6 as stated fails for the ratings 1, 2, 2: the variance is 2/9, so \<open>10 - min 9 v\<close> is
  88/9, but the consistency score returned is 9.78; the mean is 5/3 and the average returned
  is 1.67, off by 1/300.
\<close>

theorem metrics_consistency_unrounded_counterexample:
  "calculate_metrics py_round2 [] [] [1, 2, 2] 0
     = Inr [(''average_rating'', JNum (167 / 100)),
            (''max_rating'', JNum 2),
            (''min_rating'', JNum 1),
            (''consistency_score'', JNum (489 / 50)),
            (''total_questions'', JNum 0),
            (''total_answers'', JNum 0),
            (''response_rate'', JNum 0),
            (''excellent_responses'', JNum 0),
            (''good_responses'', JNum 0),
            (''poor_responses'', JNum 3),
            (''duration_minutes'', JNum 0),
            (''questions_per_minute'', JNum 0)]
   \<and> 10 - min 9 (population_variance [1, 2, 2]) = 88 / 9
   \<and> (489 / 50 :: rat) \<noteq> 88 / 9
   \<and> mean [1, 2, 2] = 5 / 3
   \<and> \<bar>(167 / 100 :: rat) - 5 / 3\<bar> = 1 / 300"
  by code_simp

text \<open>The same ratings with duration 0: the metrics are returned with the rounded values.\<close>

theorem metrics_rounded_consistency_witness:
  "[1, 2, 2] \<noteq> ([] :: rat list)
   \<and> (\<exists>m. calculate_metrics py_round2 [] [] [1, 2, 2] 0 = Inr m
         \<and> dict_get m ''consistency_score'' = Some (JNum (489 / 50))
         \<and> dict_get m ''average_rating'' = Some (JNum (167 / 100)))
   \<and> two_decimals (py_round2 (10 - min 9 (population_variance [1, 2, 2])))
        (10 - min 9 (population_variance [1, 2, 2]))
   \<and> py_round2 (10 - min 9 (population_variance [1, 2, 2])) = 489 / 50
   \<and> 1 \<le> py_round2 (10 - min 9 (population_variance [1, 2, 2]))
   \<and> py_round2 (10 - min 9 (population_variance [1, 2, 2])) \<le> 10
   \<and> py_round2 (mean [1, 2, 2]) = 167 / 100"
proof -
  obtain m where m: "calculate_metrics py_round2 [] [] [1, 2, 2] 0 = Inr m"
    using metrics_rounded_consistency [of "[1, 2, 2]" py_round2 "[]" "[]" 0] by auto
  have near: "two_decimals (py_round2 (10 - min 9 (population_variance [1, 2, 2])))
      (10 - min 9 (population_variance [1, 2, 2]))"
    by code_simp
  have c: "py_round2 (10 - min 9 (population_variance [1, 2, 2])) = 489 / 50"
    by code_simp
  have a: "py_round2 (mean [1, 2, 2]) = 167 / 100"
    by code_simp
  from m near metrics_rounded_consistency [of "[1, 2, 2]" py_round2 "[]" "[]" 0 m]
  have got: "dict_get m ''consistency_score''
          = Some (JNum (py_round2 (10 - min 9 (population_variance [1, 2, 2]))))"
    "dict_get m ''average_rating'' = Some (JNum (py_round2 (mean [1, 2, 2])))"
    "1 \<le> py_round2 (10 - min 9 (population_variance [1, 2, 2]))"
    "py_round2 (10 - min 9 (population_variance [1, 2, 2])) \<le> 10"
    by blast+
  from got(1) c have d1: "dict_get m ''consistency_score'' = Some (JNum (489 / 50))"
    by (simp only:)
  from got(2) a have d2: "dict_get m ''average_rating'' = Some (JNum (167 / 100))"
    by (simp only:)
  have ne: "[1, 2, 2] \<noteq> ([] :: rat list)"
    by simp
  from ne m d1 d2 near c got(3,4) a show ?thesis
    by blast
qed

section \<open>Properties of the report\<close>

lemma generate_report_try_sections:
  "generate_report_try svc loads fmt rnd replies now data = Inr r \<Longrightarrow>
   report_sections (Inr r) = primary_sections"
  by (auto simp: generate_report_try_def Let_def report_sections_def dict_keys_def
      primary_sections_def split: sum.splits)

lemma get_fallback_report_sections:
  "get_fallback_report rnd now data = Inr r \<Longrightarrow> report_sections (Inr r) = fallback_sections"
  by (auto simp: get_fallback_report_def report_sections_def dict_keys_def
      fallback_sections_def split: sum.splits)

lemma generate_report_primary:
  "generate_report_try svc loads fmt rnd replies now data = Inr r \<Longrightarrow>
   generate_report svc loads fmt rnd replies now data = Inr r"
  by (simp add: generate_report_def)

lemma generate_report_fallback:
  "generate_report_try svc loads fmt rnd replies now data = Inl e \<Longrightarrow>
   generate_report svc loads fmt rnd replies now data = get_fallback_report rnd now data"
  by (simp add: generate_report_def)

text \<open>
  C4, as the code has it. A report that the \<^verbatim>\<open>try\<close> of \<^verbatim>\<open>generate_report\<close> returns has the
  nine sections \<^verbatim>\<open>report_metadata\<close>, \<^verbatim>\<open>executive_summary\<close>, \<^verbatim>\<open>overall_assessment\<close>,
  \<^verbatim>\<open>metrics\<close>, \<^verbatim>\<open>detailed_analysis\<close>, \<^verbatim>\<open>strengths_weaknesses\<close>, \<^verbatim>\<open>recommendations\<close>,
  \<^verbatim>\<open>next_steps\<close>, \<^verbatim>\<open>qa_analysis\<close>. A whole-report fallback that returns has five of them
  only: \<^verbatim>\<open>report_metadata\<close>, \<^verbatim>\<open>executive_summary\<close>, \<^verbatim>\<open>overall_assessment\<close>,
  \<^verbatim>\<open>metrics\<close>, \<^verbatim>\<open>recommendations\<close>; and this is what \<^verbatim>\<open>generate_report\<close> returns when
  the assembly raised.
\<close>

theorem fallback_report_sections:
  "(\<forall>r. generate_report_try svc loads fmt rnd replies now data = Inr r \<longrightarrow>
        generate_report svc loads fmt rnd replies now data = Inr r
        \<and> report_sections (Inr r) = primary_sections)
   \<and> (\<forall>r. get_fallback_report rnd now data = Inr r \<longrightarrow>
        report_sections (Inr r) = fallback_sections)
   \<and> (\<forall>e r. generate_report_try svc loads fmt rnd replies now data = Inl e
          \<and> generate_report svc loads fmt rnd replies now data = Inr r \<longrightarrow>
        report_sections (Inr r) = fallback_sections)"
  using generate_report_try_sections [of svc loads fmt rnd replies now data]
    get_fallback_report_sections [of rnd now data]
    generate_report_primary [of svc loads fmt rnd replies now data]
    generate_report_fallback [of svc loads fmt rnd replies now data]
  by metis

text \<open>
  C4 as stated fails: with an answer given as a dictionary without an \<^verbatim>\<open>answer\<close> key the
  per-question analysis raises AttributeError, the whole-report fallback is returned, and it
  lacks \<^verbatim>\<open>detailed_analysis\<close>, \<^verbatim>\<open>strengths_weaknesses\<close>, \<^verbatim>\<open>next_steps\<close> and
  \<^verbatim>\<open>qa_analysis\<close>.
\<close>

theorem fallback_report_shape_counterexample:
  "generate_report_try
     \<lparr>current_provider = None, current_instance = None\<rparr> json_loads format_1f py_round2
     \<lparr>summary_reply = Inr ''{}'', analysis_reply = Inr ''{}'', strengths_reply = Inr ''{}'',
      recommendations_reply = Inr ''{}'', next_steps_reply = Inr ''{}'',
      assessment_reply = Inr ''{}''\<rparr>
     ''2026-01-01T09:00:00''
     \<lparr>data_questions = Some [JStr ''Why this role?''],
      data_answers = Some [JObj [(''text'', JStr ''I like the team'')]],
      data_ratings = Some [7], data_duration = Some 120000, data_candidate_info = None\<rparr>
    = Inl AttributeError
   \<and> report_sections (generate_report
     \<lparr>current_provider = None, current_instance = None\<rparr> json_loads format_1f py_round2
     \<lparr>summary_reply = Inr ''{}'', analysis_reply = Inr ''{}'', strengths_reply = Inr ''{}'',
      recommendations_reply = Inr ''{}'', next_steps_reply = Inr ''{}'',
      assessment_reply = Inr ''{}''\<rparr>
     ''2026-01-01T09:00:00''
     \<lparr>data_questions = Some [JStr ''Why this role?''],
      data_answers = Some [JObj [(''text'', JStr ''I like the team'')]],
      data_ratings = Some [7], data_duration = Some 120000, data_candidate_info = None\<rparr>)
    = [''report_metadata'', ''executive_summary'', ''overall_assessment'', ''metrics'',
       ''recommendations'']
   \<and> report_sections (generate_report
     \<lparr>current_provider = None, current_instance = None\<rparr> json_loads format_1f py_round2
     \<lparr>summary_reply = Inr ''{}'', analysis_reply = Inr ''{}'', strengths_reply = Inr ''{}'',
      recommendations_reply = Inr ''{}'', next_steps_reply = Inr ''{}'',
      assessment_reply = Inr ''{}''\<rparr>
     ''2026-01-01T09:00:00''
     \<lparr>data_questions = Some [JStr ''Why this role?''],
      data_answers = Some [JObj [(''text'', JStr ''I like the team'')]],
      data_ratings = Some [7], data_duration = Some 120000, data_candidate_info = None\<rparr>)
    \<noteq> primary_sections"
  by code_simp

text \<open>
  Without a provider: a bundle with a plain answer gives a primary report with the nine
  sections, the bundle with the dictionary answer gives the fallback with the five.
\<close>

theorem fallback_report_sections_witness:
  "report_sections (generate_report
     \<lparr>current_provider = None, current_instance = None\<rparr> json_loads format_1f py_round2
     \<lparr>summary_reply = Inr ''{}'', analysis_reply = Inr ''{}'', strengths_reply = Inr ''{}'',
      recommendations_reply = Inr ''{}'', next_steps_reply = Inr ''{}'',
      assessment_reply = Inr ''{}''\<rparr>
     ''2026-01-01T09:00:00''
     \<lparr>data_questions = Some [JStr ''Why this role?''],
      data_answers = Some [JStr ''I like the team and I learn fast''],
      data_ratings = Some [7], data_duration = Some 120000, data_candidate_info = None\<rparr>)
    = primary_sections
   \<and> generate_report_try
     \<lparr>current_provider = None, current_instance = None\<rparr> json_loads format_1f py_round2
     \<lparr>summary_reply = Inr ''{}'', analysis_reply = Inr ''{}'', strengths_reply = Inr ''{}'',
      recommendations_reply = Inr ''{}'', next_steps_reply = Inr ''{}'',
      assessment_reply = Inr ''{}''\<rparr>
     ''2026-01-01T09:00:00''
     \<lparr>data_questions = Some [JStr ''Why this role?''],
      data_answers = Some [JObj [(''text'', JStr ''I like the team'')]],
      data_ratings = Some [7], data_duration = Some 120000, data_candidate_info = None\<rparr>
    = Inl AttributeError
   \<and> report_sections (generate_report
     \<lparr>current_provider = None, current_instance = None\<rparr> json_loads format_1f py_round2
     \<lparr>summary_reply = Inr ''{}'', analysis_reply = Inr ''{}'', strengths_reply = Inr ''{}'',
      recommendations_reply = Inr ''{}'', next_steps_reply = Inr ''{}'',
      assessment_reply = Inr ''{}''\<rparr>
     ''2026-01-01T09:00:00''
     \<lparr>data_questions = Some [JStr ''Why this role?''],
      data_answers = Some [JObj [(''text'', JStr ''I like the team'')]],
      data_ratings = Some [7], data_duration = Some 120000, data_candidate_info = None\<rparr>)
    = fallback_sections"
proof -
  let ?svc = "\<lparr>current_provider = None, current_instance = None\<rparr>"
  let ?replies = "\<lparr>summary_reply = Inr ''{}'', analysis_reply = Inr ''{}'',
    strengths_reply = Inr ''{}'', recommendations_reply = Inr ''{}'',
    next_steps_reply = Inr ''{}'', assessment_reply = Inr ''{}''\<rparr>"
  let ?now = "''2026-01-01T09:00:00''"
  let ?plain = "\<lparr>data_questions = Some [JStr ''Why this role?''],
    data_answers = Some [JStr ''I like the team and I learn fast''],
    data_ratings = Some [7], data_duration = Some 120000, data_candidate_info = None\<rparr>"
  let ?dict = "\<lparr>data_questions = Some [JStr ''Why this role?''],
    data_answers = Some [JObj [(''text'', JStr ''I like the team'')]],
    data_ratings = Some [7], data_duration = Some 120000, data_candidate_info = None\<rparr>"
  have "report_sections (generate_report_try ?svc json_loads format_1f py_round2 ?replies ?now ?plain)
      = primary_sections"
    by code_simp
  then obtain r1 where r1:
    "generate_report_try ?svc json_loads format_1f py_round2 ?replies ?now ?plain = Inr r1"
    by (cases "generate_report_try ?svc json_loads format_1f py_round2 ?replies ?now ?plain")
      (simp_all add: report_sections_def primary_sections_def)
  have raised: "generate_report_try ?svc json_loads format_1f py_round2 ?replies ?now ?dict
      = Inl AttributeError"
    by code_simp
  have "report_sections (get_fallback_report py_round2 ?now ?dict) = fallback_sections"
    by code_simp
  then obtain r0 where r0: "get_fallback_report py_round2 ?now ?dict = Inr r0"
    by (cases "get_fallback_report py_round2 ?now ?dict")
      (simp_all add: report_sections_def fallback_sections_def)
  with raised have returned:
    "generate_report ?svc json_loads format_1f py_round2 ?replies ?now ?dict = Inr r0"
    by (simp add: generate_report_def)
  from r1 raised returned
    fallback_report_sections [of ?svc json_loads format_1f py_round2 ?replies ?now ?plain]
    fallback_report_sections [of ?svc json_loads format_1f py_round2 ?replies ?now ?dict]
  show ?thesis by simp
qed

text \<open>
  The only exception that leaves \<^verbatim>\<open>generate_report\<close> is the ZeroDivisionError of the
  metrics, which the fallback report computes a second time outside any \<^verbatim>\<open>try\<close>.
\<close>

lemma calculate_metrics_raises:
  "(calculate_metrics rnd questions answers ratings duration = Inl e)
     = (e = ZeroDivisionError \<and> ratings \<noteq> [] \<and> 0 < duration \<and> duration < 60000)"
  by (auto simp: calculate_metrics_def Let_def true_div_def split: list.splits sum.splits if_splits)

lemma get_fallback_report_raises:
  "(get_fallback_report rnd now data = Inl e)
     = (calculate_metrics rnd (get_or (data_questions data) []) (get_or (data_answers data) [])
          (get_or (data_ratings data) []) (get_or (data_duration data) 0) = Inl e)"
  by (simp add: get_fallback_report_def split: sum.splits)

lemma generate_report_try_metrics:
  "calculate_metrics rnd (get_or (data_questions data) []) (get_or (data_answers data) [])
      (get_or (data_ratings data) []) (get_or (data_duration data) 0) = Inl e \<Longrightarrow>
   generate_report_try svc loads fmt rnd replies now data = Inl e"
  by (simp add: generate_report_try_def Let_def)

lemma generate_report_raises_iff:
  "(generate_report svc loads fmt rnd replies now data = Inl e)
     = (e = ZeroDivisionError \<and> get_or (data_ratings data) [] \<noteq> []
        \<and> 0 < get_or (data_duration data) 0 \<and> get_or (data_duration data) 0 < 60000)"
proof -
  let ?m = "calculate_metrics rnd (get_or (data_questions data) []) (get_or (data_answers data) [])
      (get_or (data_ratings data) []) (get_or (data_duration data) 0)"
  have "(generate_report svc loads fmt rnd replies now data = Inl e) = (?m = Inl e)"
  proof (cases "generate_report_try svc loads fmt rnd replies now data")
    case (Inl e')
    then show ?thesis
      by (simp add: generate_report_def get_fallback_report_raises)
  next
    case (Inr r)
    then have "?m \<noteq> Inl e"
      using generate_report_try_metrics [where data = data and e = e and rnd = rnd and svc = svc and loads = loads and fmt = fmt
          and replies = replies and now = now] by auto
    with Inr show ?thesis
      by (simp add: generate_report_def)
  qed
  then show ?thesis
    by (simp add: calculate_metrics_raises)
qed

text \<open>
  C1. The question, follow-up and analysis operations are total, and every exception of the
  provider or of the contract is replaced by a fallback. \<^verbatim>\<open>generate_report\<close> however lets
  an exception through: for a bundle with a rating and a duration of 30000 ms the metrics
  raise ZeroDivisionError in the \<^verbatim>\<open>try\<close>, and again in the fallback report, whatever the
  provider does.
\<close>

theorem report_propagates_division_by_zero:
  "generate_report svc loads fmt rnd replies now
     \<lparr>data_questions = Some [JStr ''Tell me about yourself.''],
      data_answers = Some [JStr ''I build web services.''],
      data_ratings = Some [5], data_duration = Some 30000, data_candidate_info = None\<rparr>
    = Inl ZeroDivisionError"
  by (simp add: generate_report_def generate_report_try_def get_fallback_report_def Let_def
      get_or_def calculate_metrics_def true_div_def)

end
